theory Spec2Isabelle
  imports Complex_Main "HOL-Library.AList"
begin

section \<open>Data model (src/types/index.ts)\<close>

text \<open>
  A shallow embedding of the Song library: colour utilities, the perceptual filter of the
  colour extractor, the wave generator and the Song facade with its cache.

  Colour channels and counts are integers (\<open>int\<close>), which JavaScript numbers hold
  exactly.  Every quantity the code obtains with a fractional constant or a division
  (brightness, saturation, harmony) is a double: a rational number (\<open>rat\<close>) that each
  operation rounds to the nearest binary64 value.  Strings are \<open>string\<close>.
\<close>

record ColorRGB =
  r :: int
  g :: int
  b :: int

section \<open>Double-precision arithmetic\<close>

text \<open>
  IEEE 754 binary64 with rounding to nearest, ties to even: a non-zero \<open>x\<close> whose
  magnitude lies in \<open>[2^e, 2^(e+1))\<close> is rounded to a multiple of \<open>2^(e-52)\<close>.  The
  exponent range is not bounded: with 8-bit channels no operation of this library
  overflows or reaches the subnormal range.
\<close>

function bitLength :: "int \<Rightarrow> int" where
  "bitLength n = (if n \<le> 0 then 0 else 1 + bitLength (n div 2))"
  by pat_completeness auto
termination
  by (relation "measure nat") auto

declare bitLength.simps [simp del]

definition roundHalfEven :: "rat \<Rightarrow> int" where
  "roundHalfEven y =
     (let n = \<lfloor>y\<rfloor>; f = y - of_int n
      in if f < 1 / 2 then n else if 1 / 2 < f then n + 1 else if even n then n else n + 1)"

text \<open>The exponent \<open>e\<close> with \<open>2^e \<le> a < 2^(e+1)\<close>, for a positive \<open>a\<close>.\<close>

definition binade :: "rat \<Rightarrow> int" where
  "binade a =
     (let (p, q) = quotient_of a;
          d = bitLength p - bitLength q
      in if 2 powi d \<le> a then d else d - 1)"

definition fl :: "rat \<Rightarrow> rat" where
  "fl x =
     (if x = 0 then 0
      else
        let a = \<bar>x\<bar>;
            ulp = 2 powi (binade a - 52)
        in sgn x * (of_int (roundHalfEven (a / ulp)) * ulp))"

text \<open>The four operations on doubles; a decimal literal \<open>c\<close> of the source is \<open>fl c\<close>.\<close>

definition addD :: "rat \<Rightarrow> rat \<Rightarrow> rat" where
  "addD x y = fl (x + y)"

definition subD :: "rat \<Rightarrow> rat \<Rightarrow> rat" where
  "subD x y = fl (x - y)"

definition mulD :: "rat \<Rightarrow> rat \<Rightarrow> rat" where
  "mulD x y = fl (x * y)"

definition divD :: "rat \<Rightarrow> rat \<Rightarrow> rat" where
  "divD x y = fl (x / y)"

section \<open>Utilities (src/utils/index.ts)\<close>

subsection \<open>Hex conversion\<close>

definition hexDigit :: "nat \<Rightarrow> char" where
  "hexDigit d = ''0123456789abcdef'' ! d"

text \<open>\<open>Number.prototype.toString(16)\<close> on a non-negative integer: lower-case digits, no
  leading zero.\<close>

function toString16 :: "nat \<Rightarrow> string" where
  "toString16 n = (if n < 16 then [hexDigit n] else toString16 (n div 16) @ [hexDigit (n mod 16)])"
  by pat_completeness auto
termination
  by (relation "measure id") auto

declare toString16.simps [simp del]

text \<open>\<open>String.prototype.padStart(n, "0")\<close>.\<close>

definition padStart0 :: "nat \<Rightarrow> string \<Rightarrow> string" where
  "padStart0 n s = replicate (n - length s) CHR ''0'' @ s"

text \<open>On an integer \<open>Math.round\<close> is the identity, so \<open>toHex\<close> clamps to \<open>[0, 255]\<close> and
  prints two hexadecimal digits.\<close>

definition toHex :: "int \<Rightarrow> string" where
  "toHex n = (let hex = toString16 (nat (max 0 (min 255 n))) in padStart0 2 hex)"

definition rgbToHex :: "ColorRGB \<Rightarrow> string" where
  "rgbToHex rgb = ''#'' @ toHex (r rgb) @ toHex (g rgb) @ toHex (b rgb)"

text \<open>The character class \<open>[a-f\d]\<close> under the flag \<open>i\<close>.\<close>

definition isHexChar :: "char \<Rightarrow> bool" where
  "isHexChar c = (let n = (of_char c :: nat) in
     (48 \<le> n \<and> n \<le> 57) \<or> (97 \<le> n \<and> n \<le> 102) \<or> (65 \<le> n \<and> n \<le> 70))"

definition hexValue :: "char \<Rightarrow> int" where
  "hexValue c = (let n = (of_char c :: nat) in
     if n \<le> 57 then int n - 48 else if 97 \<le> n then int n - 87 else int n - 55)"

text \<open>\<open>parseInt(s, 16)\<close> on a string of hexadecimal digits.\<close>

definition parseInt16 :: "string \<Rightarrow> int" where
  "parseInt16 s = foldl (\<lambda>acc c. 16 * acc + hexValue c) 0 s"

text \<open>The match of \<open>/^#?([a-f\d]{2})([a-f\d]{2})([a-f\d]{2})$/i\<close>: the three captured
  groups, or \<open>None\<close> when the string does not match.  A leading \<open>#\<close> is not a
  hexadecimal digit, so the optional \<open>#\<close> is consumed whenever it is there.\<close>

definition hexRegexExec :: "string \<Rightarrow> (string \<times> string \<times> string) option" where
  "hexRegexExec hex =
     (let body = (case hex of c # rest \<Rightarrow> if c = CHR ''#'' then rest else hex | [] \<Rightarrow> hex) in
      case body of
        [c1, c2, c3, c4, c5, c6] \<Rightarrow>
          if isHexChar c1 \<and> isHexChar c2 \<and> isHexChar c3 \<and> isHexChar c4 \<and> isHexChar c5 \<and> isHexChar c6
          then Some ([c1, c2], [c3, c4], [c5, c6]) else None
      | _ \<Rightarrow> None)"

definition hexToRgb :: "string \<Rightarrow> ColorRGB option" where
  "hexToRgb hex =
     (case hexRegexExec hex of
        Some (g1, g2, g3) \<Rightarrow> Some \<lparr>r = parseInt16 g1, g = parseInt16 g2, b = parseInt16 g3\<rparr>
      | None \<Rightarrow> None)"

text \<open>The wording of the specification: a colour string is six hexadecimal digits with
  an optional leading \<open>#\<close>.\<close>

definition hexDigits :: "char set" where
  "hexDigits = set ''0123456789abcdefABCDEF''"

definition isHexColorString :: "string \<Rightarrow> bool" where
  "isHexColorString s =
     (\<exists>ds. (s = ds \<or> s = CHR ''#'' # ds) \<and> length ds = 6 \<and> set ds \<subseteq> hexDigits)"

subsection \<open>Brightness, difference, uniqueness\<close>

definition calculateBrightness :: "ColorRGB \<Rightarrow> rat" where
  "calculateBrightness color =
     addD (addD (mulD (fl 0.299) (of_int (r color))) (mulD (fl 0.587) (of_int (g color))))
          (mulD (fl 0.114) (of_int (b color)))"

definition calculateColorDifference :: "ColorRGB \<Rightarrow> ColorRGB \<Rightarrow> int" where
  "calculateColorDifference color1 color2 =
     \<bar>r color1 - r color2\<bar> + \<bar>g color1 - g color2\<bar> + \<bar>b color1 - b color2\<bar>"

definition isColorUnique :: "ColorRGB \<Rightarrow> ColorRGB list \<Rightarrow> int \<Rightarrow> bool" where
  "isColorUnique color existingColors threshold =
     (\<not> list_ex (\<lambda>existing. calculateColorDifference color existing < threshold) existingColors)"

subsection \<open>Mood\<close>

text \<open>The body of the \<open>forEach\<close>: one colour added to the running totals
  \<open>(totalSaturation, totalBrightness)\<close>.\<close>

fun moodLoop :: "ColorRGB list \<Rightarrow> rat \<times> rat \<Rightarrow> rat \<times> rat" where
  "moodLoop [] totals = totals"
| "moodLoop (color # colors) (totalSaturation, totalBrightness) =
     (let brightness = calculateBrightness color;
          mx = max (r color) (max (g color) (b color));
          mn = min (r color) (min (g color) (b color));
          saturation = (if mx = 0 then 0 else divD (of_int (mx - mn)) (of_int mx))
      in moodLoop colors (addD totalSaturation saturation, addD totalBrightness brightness))"

definition analyzeColorMood :: "ColorRGB list \<Rightarrow> string" where
  "analyzeColorMood colors =
     (if length colors = 0 then ''neutral''
      else
        let (totalSaturation, totalBrightness) = moodLoop colors (0, 0);
            avgSaturation = divD totalSaturation (of_nat (length colors));
            avgBrightness = divD totalBrightness (of_nat (length colors))
        in if avgBrightness > 180 \<and> avgSaturation > fl 0.5 then ''energetic''
           else if avgBrightness < 80 \<and> avgSaturation < fl 0.3 then ''calm''
           else if avgSaturation > fl 0.7 then ''vibrant''
           else if avgBrightness > 150 then ''bright''
           else if avgBrightness < 100 then ''dark''
           else ''balanced'')"

text \<open>The wording of the specification (section 4.5 and the glossary), in the same
  double arithmetic: the luminance \<open>0.299r + 0.587g + 0.114b\<close>, the approximate
  saturation \<open>(max - min) / max\<close> of one colour, the averages, and the threshold table
  read top to bottom.\<close>

definition luminance :: "ColorRGB \<Rightarrow> rat" where
  "luminance c =
     addD (addD (mulD (fl 0.299) (of_int (r c))) (mulD (fl 0.587) (of_int (g c))))
          (mulD (fl 0.114) (of_int (b c)))"

definition saturationOf :: "ColorRGB \<Rightarrow> rat" where
  "saturationOf c =
     (let mx = Max {r c, g c, b c}; mn = Min {r c, g c, b c}
      in if mx = 0 then 0 else divD (of_int (mx - mn)) (of_int mx))"

definition sumD :: "rat list \<Rightarrow> rat" where
  "sumD xs = foldl addD 0 xs"

definition average :: "rat list \<Rightarrow> rat" where
  "average xs = divD (sumD xs) (of_nat (length xs))"

definition moodTable :: "rat \<Rightarrow> rat \<Rightarrow> string" where
  "moodTable brightness saturation =
     (if brightness > 180 \<and> saturation > fl 0.5 then ''energetic''
      else if brightness < 80 \<and> saturation < fl 0.3 then ''calm''
      else if saturation > fl 0.7 then ''vibrant''
      else if brightness > 150 then ''bright''
      else if brightness < 100 then ''dark''
      else ''balanced'')"

definition moodSpec :: "ColorRGB list \<Rightarrow> string" where
  "moodSpec colors =
     (if colors = [] then ''neutral''
      else moodTable (average (map luminance colors)) (average (map saturationOf colors)))"

subsection \<open>Harmony\<close>

text \<open>The inner loop over \<open>j\<close> (the colours after position \<open>i\<close>) and the outer loop over
  \<open>i\<close>, on the pair \<open>(harmonyScore, comparisons)\<close>; both are JavaScript numbers.  The
  difference \<open>diff - idealDiff\<close> and its absolute value are integers.\<close>

fun harmonyInner :: "ColorRGB \<Rightarrow> ColorRGB list \<Rightarrow> rat \<times> rat \<Rightarrow> rat \<times> rat" where
  "harmonyInner ci [] acc = acc"
| "harmonyInner ci (cj # rest) (harmonyScore, comparisons) =
     (let diff = calculateColorDifference ci cj;
          idealDiff = 150;
          score = subD 1 (divD (of_int \<bar>diff - idealDiff\<bar>) (of_int idealDiff))
      in harmonyInner ci rest (addD harmonyScore (max 0 score), addD comparisons 1))"

fun harmonyOuter :: "ColorRGB list \<Rightarrow> rat \<times> rat \<Rightarrow> rat \<times> rat" where
  "harmonyOuter [] acc = acc"
| "harmonyOuter (ci # rest) acc = harmonyOuter rest (harmonyInner ci rest acc)"

definition calculateHarmony :: "ColorRGB list \<Rightarrow> rat" where
  "calculateHarmony colors =
     (if length colors < 2 then 1
      else
        let (harmonyScore, comparisons) = harmonyOuter colors (0, 0)
        in if comparisons > 0 then divD harmonyScore comparisons else 1)"

text \<open>The wording of the specification: the average, over all unordered pairs of
  positions, of \<open>max(0, 1 - |distance - 150| / 150)\<close>, where the distance of a pair is
  the Manhattan distance \<open>|r1-r2| + |g1-g2| + |b1-b2|\<close>.  The average is the sum of the
  scores divided by the number of pairs, both accumulated as doubles.\<close>

fun colorPairs :: "ColorRGB list \<Rightarrow> (ColorRGB \<times> ColorRGB) list" where
  "colorPairs [] = []"
| "colorPairs (c # cs) = map (Pair c) cs @ colorPairs cs"

definition pairScore :: "ColorRGB \<times> ColorRGB \<Rightarrow> rat" where
  "pairScore p =
     (case p of (c1, c2) \<Rightarrow>
        max 0 (subD 1 (divD (of_int \<bar>(\<bar>r c1 - r c2\<bar> + \<bar>g c1 - g c2\<bar> + \<bar>b c1 - b c2\<bar>) - 150\<bar>) 150)))"

definition countD :: "'a list \<Rightarrow> rat" where
  "countD xs = foldl (\<lambda>n x. addD n 1) 0 xs"

definition harmonySpec :: "ColorRGB list \<Rightarrow> rat" where
  "harmonySpec colors =
     (if length colors < 2 then 1
      else divD (sumD (map pairScore (colorPairs colors))) (countD (colorPairs colors)))"

subsection \<open>Gradient strings, fallbacks, timing\<close>

fun joinWith :: "string \<Rightarrow> string list \<Rightarrow> string" where
  "joinWith sep [] = []"
| "joinWith sep [x] = x"
| "joinWith sep (x # y # ys) = x @ sep @ joinWith sep (y # ys)"

text \<open>\<open>Array.prototype.slice(0, n)\<close> for an integer \<open>n\<close>: a negative \<open>n\<close> counts from the
  end.\<close>

definition slice0 :: "'a list \<Rightarrow> int \<Rightarrow> 'a list" where
  "slice0 xs n = (if n < 0 then take (nat (int (length xs) + n)) xs else take (nat n) xs)"

definition generateWaveCSS :: "string list \<Rightarrow> string \<Rightarrow> string \<Rightarrow> string" where
  "generateWaveCSS colors0 direction waveType =
     (let colors = (if length colors0 < 2 then slice0 (colors0 @ [''#6B46C1'', ''#EC4899'']) 2 else colors0)
      in if waveType = ''radial'' then ''radial-gradient(circle, '' @ joinWith '', '' colors @ '')''
         else if waveType = ''conic'' then ''conic-gradient('' @ joinWith '', '' colors @ '')''
         else ''linear-gradient('' @ direction @ '', '' @ joinWith '', '' colors @ '')'')"

definition getFallbackColors :: "string \<Rightarrow> string list" where
  "getFallbackColors intensity =
     (if intensity = ''gentle'' then [''#E8E3F3'', ''#F3E8FF'']
      else if intensity = ''energetic'' then [''#FF6B6B'', ''#4ECDC4'']
      else [''#6B46C1'', ''#EC4899''])"

definition getTransitionTiming :: "string \<Rightarrow> string" where
  "getTransitionTiming flowSpeed =
     (if flowSpeed = ''slow'' then ''all 3s cubic-bezier(0.4, 0, 0.2, 1)''
      else if flowSpeed = ''fast'' then ''all 0.8s cubic-bezier(0.4, 0, 0.2, 1)''
      else ''all 1.5s cubic-bezier(0.4, 0, 0.2, 1)'')"

section \<open>The perceptual filter (ColorExtractor.filterColors)\<close>

definition purple :: ColorRGB where
  "purple = \<lparr>r = 107, g = 70, b = 193\<rparr>"

definition pink :: ColorRGB where
  "pink = \<lparr>r = 236, g = 72, b = 153\<rparr>"

text \<open>The \<open>for\<close> loop over the candidates, on the list \<open>filtered\<close>: \<open>continue\<close> skips the
  rest of the body, \<open>break\<close> leaves the loop.\<close>

fun filterLoop :: "ColorRGB list \<Rightarrow> int \<Rightarrow> ColorRGB list \<Rightarrow> ColorRGB list" where
  "filterLoop [] targetCount filtered = filtered"
| "filterLoop (color # colors) targetCount filtered =
     (let brightness = calculateBrightness color in
      if brightness < 40 \<or> brightness > 200 then filterLoop colors targetCount filtered
      else
        let filtered' = (if isColorUnique color filtered 80 then filtered @ [color] else filtered)
        in if int (length filtered') \<ge> targetCount then filtered'
           else filterLoop colors targetCount filtered')"

text \<open>The \<open>while\<close> loop that pads with the fallback colours.\<close>

function padLoop :: "ColorRGB list \<Rightarrow> int \<Rightarrow> ColorRGB list" where
  "padLoop filtered targetCount =
     (if int (length filtered) < targetCount
      then padLoop (filtered @ [if length filtered = 0 then purple else pink]) targetCount
      else filtered)"
  by pat_completeness auto
termination
  by (relation "measure (\<lambda>(filtered, targetCount). nat (targetCount - int (length filtered)))") auto

declare padLoop.simps [simp del]

definition filterColors :: "ColorRGB list \<Rightarrow> int \<Rightarrow> ColorRGB list" where
  "filterColors colors targetCount =
     slice0 (padLoop (filterLoop colors targetCount []) targetCount) targetCount"

text \<open>What the padding loop appends to a list \<open>filtered\<close> (a closed form used in the
  proofs below).\<close>

definition padding :: "ColorRGB list \<Rightarrow> int \<Rightarrow> ColorRGB list" where
  "padding filtered targetCount =
     (if filtered = [] then (if 0 < targetCount then purple # replicate (nat targetCount - 1) pink else [])
      else replicate (nat (targetCount - int (length filtered))) pink)"

definition grey100 :: ColorRGB where
  "grey100 = \<lparr>r = 100, g = 100, b = 100\<rparr>"

definition clay :: ColorRGB where
  "clay = \<lparr>r = 200, g = 150, b = 130\<rparr>"

definition sand :: ColorRGB where
  "sand = \<lparr>r = 200, g = 150, b = 125\<rparr>"

definition white :: ColorRGB where
  "white = \<lparr>r = 255, g = 255, b = 255\<rparr>"

section \<open>Wave generator (src/core/wave-extractor.ts)\<close>

text \<open>\<open>WaveConfig\<close> has optional fields only: \<open>None\<close> is an absent field.
  \<open>RequiredWaveConfig\<close> is \<open>Required<WaveConfig>\<close>.\<close>

record WaveConfig =
  direction_opt :: "string option"
  transition_opt :: "string option"
  fallbackColors_opt :: "string list option"
  colorCount_opt :: "int option"
  flowSpeed_opt :: "string option"
  intensity_opt :: "string option"
  waveType_opt :: "string option"

record RequiredWaveConfig =
  direction :: string
  transition :: string
  fallbackColors :: "string list"
  colorCount :: int
  flowSpeed :: string
  intensity :: string
  waveType :: string

record WaveGenerator =
  config :: RequiredWaveConfig

definition emptyWaveConfig :: WaveConfig where
  "emptyWaveConfig = \<lparr>direction_opt = None, transition_opt = None, fallbackColors_opt = None,
     colorCount_opt = None, flowSpeed_opt = None, intensity_opt = None, waveType_opt = None\<rparr>"

text \<open>One field of an object spread \<open>{...defaults, ...given}\<close>.\<close>

definition spread :: "'a \<Rightarrow> 'a option \<Rightarrow> 'a" where
  "spread dflt given = (case given of None \<Rightarrow> dflt | Some v \<Rightarrow> v)"

text \<open>Truthiness of an optional string: absent and the empty string are falsy.\<close>

definition truthy :: "string option \<Rightarrow> bool" where
  "truthy s = (case s of None \<Rightarrow> False | Some v \<Rightarrow> v \<noteq> [])"

definition spreadWaveConfig :: "RequiredWaveConfig \<Rightarrow> WaveConfig \<Rightarrow> RequiredWaveConfig" where
  "spreadWaveConfig base given =
     \<lparr>direction = spread (direction base) (direction_opt given),
      transition = spread (transition base) (transition_opt given),
      fallbackColors = spread (fallbackColors base) (fallbackColors_opt given),
      colorCount = spread (colorCount base) (colorCount_opt given),
      flowSpeed = spread (flowSpeed base) (flowSpeed_opt given),
      intensity = spread (intensity base) (intensity_opt given),
      waveType = spread (waveType base) (waveType_opt given)\<rparr>"

definition defaultWaveConfig :: RequiredWaveConfig where
  "defaultWaveConfig =
     \<lparr>direction = ''to bottom right'',
      transition = ''all 1.5s ease-out'',
      fallbackColors = [''#6B46C1'', ''#EC4899''],
      colorCount = 2,
      flowSpeed = ''medium'',
      intensity = ''medium'',
      waveType = ''linear''\<rparr>"

text \<open>The constructor of \<open>WaveGenerator\<close>.\<close>

definition newWaveGenerator :: "WaveConfig \<Rightarrow> WaveGenerator" where
  "newWaveGenerator cfg =
     (let c0 = spreadWaveConfig defaultWaveConfig cfg;
          c1 = (if \<not> truthy (transition_opt cfg)
                then c0\<lparr>transition := getTransitionTiming (flowSpeed c0)\<rparr> else c0);
          c2 = (if fallbackColors_opt cfg = None
                then c1\<lparr>fallbackColors := getFallbackColors (intensity c1)\<rparr> else c1)
      in \<lparr>config = c2\<rparr>)"

definition getConfig :: "WaveGenerator \<Rightarrow> RequiredWaveConfig" where
  "getConfig gen = config gen"

definition updateConfig :: "WaveGenerator \<Rightarrow> WaveConfig \<Rightarrow> WaveGenerator" where
  "updateConfig gen newConfig =
     (let c0 = spreadWaveConfig (config gen) newConfig;
          c1 = (if truthy (flowSpeed_opt newConfig) \<and> \<not> truthy (transition_opt newConfig)
                then c0\<lparr>transition := getTransitionTiming (the (flowSpeed_opt newConfig))\<rparr> else c0);
          c2 = (if truthy (intensity_opt newConfig) \<and> fallbackColors_opt newConfig = None
                then c1\<lparr>fallbackColors := getFallbackColors (the (intensity_opt newConfig))\<rparr> else c1)
      in gen\<lparr>config := c2\<rparr>)"

text \<open>The \<open>while\<close> loop of \<open>ensureMinimumColors\<close>: \<open>fallbacks.shift()\<close> takes the head.\<close>

fun ensureLoop :: "string list \<Rightarrow> string list \<Rightarrow> int \<Rightarrow> string list" where
  "ensureLoop result [] count = result"
| "ensureLoop result (f # fallbacks) count =
     (if int (length result) < count then ensureLoop (result @ [f]) fallbacks count else result)"

definition ensureMinimumColors :: "WaveGenerator \<Rightarrow> string list \<Rightarrow> string list" where
  "ensureMinimumColors gen colors =
     (if int (length colors) \<ge> colorCount (config gen) then slice0 colors (colorCount (config gen))
      else slice0 (ensureLoop colors (fallbackColors (config gen)) (colorCount (config gen)))
             (colorCount (config gen)))"

definition generateCSS :: "WaveGenerator \<Rightarrow> string list \<Rightarrow> string" where
  "generateCSS gen colors =
     (let waveColors = ensureMinimumColors gen colors
      in generateWaveCSS waveColors (direction (config gen)) (waveType (config gen)))"

subsection \<open>The document\<close>

text \<open>The inline style of an element, restricted to the properties the library writes;
  the empty string is an unset property.\<close>

record ElementStyle =
  style_background :: string
  style_transition :: string
  style_opacity :: string
  style_filter :: string
  style_backgroundSize :: string
  style_animation :: string

definition noStyle :: ElementStyle where
  "noStyle = \<lparr>style_background = [], style_transition = [], style_opacity = [],
     style_filter = [], style_backgroundSize = [], style_animation = []\<rparr>"

datatype ImageSource = Url string | ImageElement string

text \<open>A thrown value: an \<open>Error\<close> with its message, or a value that is not an \<open>Error\<close>.\<close>

datatype thrown = ErrorObject string | OtherValue

datatype 'a promise = Resolved 'a | Rejected thrown

text \<open>\<open>Required<ExtractorOptions>\<close> and the optional form.\<close>

record RequiredExtractorOptions =
  canvasSize :: int
  sampleRate :: int
  precision :: int
  maxColors :: int

record ExtractorOptions =
  canvasSize_opt :: "int option"
  sampleRate_opt :: "int option"
  precision_opt :: "int option"
  maxColors_opt :: "int option"

definition emptyExtractorOptions :: ExtractorOptions where
  "emptyExtractorOptions = \<lparr>canvasSize_opt = None, sampleRate_opt = None, precision_opt = None,
     maxColors_opt = None\<rparr>"

text \<open>
  The environment the library runs in.  \<open>isBrowser\<close> is the result of the function of that
  name; \<open>canvas2d\<close> tells whether \<open>getContext("2d")\<close> yields a context; \<open>imageLoads\<close>
  tells whether an image URL fires \<open>onload\<close> (or else \<open>onerror\<close>).  \<open>canvasStage\<close> is
  what the canvas part of \<open>processImage\<close> yields for an image under the given options
  (drawing, reading the pixels, \<open>buildColorFrequencyMap\<close>, \<open>getDominantColors\<close>): the
  dominant colours, or the message of the \<open>DOMException\<close> a canvas call throws, which is
  never empty and is given as its first character and the rest.  \<open>styles\<close> holds the inline style of
  each element (elements are numbered), \<open>rootProperties\<close> the custom properties of the
  document root, \<open>keyframesInjected\<close> whether the style element
  \<open>#song-wave-animation\<close> is in the document.  \<open>extractCalls\<close> records every call of
  \<open>extractColors\<close>.
\<close>

record World =
  isBrowser :: bool
  canvas2d :: bool
  imageLoads :: "string \<Rightarrow> bool"
  canvasStage :: "RequiredExtractorOptions \<Rightarrow> ImageSource \<Rightarrow> (char \<times> string) + ColorRGB list"
  styles :: "nat \<Rightarrow> ElementStyle"
  rootProperties :: "(string \<times> string) list"
  keyframesInjected :: bool
  extractCalls :: "ImageSource list"

definition addWaveEffects :: "WaveGenerator \<Rightarrow> ElementStyle \<Rightarrow> ElementStyle" where
  "addWaveEffects gen st =
     (let st1 = (if intensity (config gen) = ''gentle'' then st\<lparr>style_opacity := ''0.8''\<rparr>
                 else if intensity (config gen) = ''energetic'' then st\<lparr>style_filter := ''saturate(1.2)''\<rparr>
                 else st)
      in if waveType (config gen) = ''radial'' then st1\<lparr>style_backgroundSize := ''150% 150%''\<rparr> else st1)"

definition applyToElement :: "WaveGenerator \<Rightarrow> World \<Rightarrow> nat \<Rightarrow> string list \<Rightarrow> World" where
  "applyToElement gen w element colors =
     (if \<not> isBrowser w then w
      else
        let gradient = generateCSS gen colors;
            st = (styles w element)\<lparr>style_background := gradient,
                                     style_transition := transition (config gen)\<rparr>
        in w\<lparr>styles := (styles w)(element := addWaveEffects gen st)\<rparr>)"

definition applyToElements :: "WaveGenerator \<Rightarrow> World \<Rightarrow> nat list \<Rightarrow> string list \<Rightarrow> World" where
  "applyToElements gen w elements colors =
     (if \<not> isBrowser w then w
      else foldl (\<lambda>w' element. applyToElement gen w' element colors) w elements)"

text \<open>Decimal printing of an index.\<close>

function toString10 :: "nat \<Rightarrow> string" where
  "toString10 n = (if n < 10 then [''0123456789'' ! n] else toString10 (n div 10) @ [''0123456789'' ! (n mod 10)])"
  by pat_completeness auto
termination
  by (relation "measure id") auto

declare toString10.simps [simp del]

text \<open>A \<open>Record<string, string>\<close> is an association list in insertion order; assigning
  a property is \<open>AList.update\<close>.\<close>

definition generateCSSVariables :: "WaveGenerator \<Rightarrow> string list \<Rightarrow> string \<Rightarrow> (string \<times> string) list" where
  "generateCSSVariables gen colors prefix =
     (let waveColors = ensureMinimumColors gen colors;
          css = generateCSS gen waveColors;
          variables =
            AList.update (''--'' @ prefix @ ''-type'') (waveType (config gen))
              (AList.update (''--'' @ prefix @ ''-direction'') (direction (config gen))
                (AList.update (''--'' @ prefix @ ''-transition'') (transition (config gen))
                  (AList.update (''--'' @ prefix @ ''-css'') css [])))
      in foldl (\<lambda>vars (index, color).
                  AList.update (''--'' @ prefix @ ''-color-'' @ toString10 (index + 1)) color vars)
           variables (enumerate 0 waveColors))"

definition applyCSSVariables :: "WaveGenerator \<Rightarrow> World \<Rightarrow> string list \<Rightarrow> string \<Rightarrow> World" where
  "applyCSSVariables gen w colors prefix =
     (if \<not> isBrowser w then w
      else
        let variables = generateCSSVariables gen colors prefix
        in w\<lparr>rootProperties :=
               foldl (\<lambda>props (property, v). AList.update property v props) (rootProperties w) variables\<rparr>)"

definition enableWaveAnimation :: "World \<Rightarrow> nat \<Rightarrow> string \<Rightarrow> World" where
  "enableWaveAnimation w element duration =
     (if \<not> isBrowser w then w
      else
        let w1 = (if \<not> keyframesInjected w then w\<lparr>keyframesInjected := True\<rparr> else w)
        in w1\<lparr>styles := (styles w1)(element := (styles w1 element)
               \<lparr>style_backgroundSize := ''200% 200%'',
                style_animation := ''songWave '' @ duration @ '' ease-in-out infinite''\<rparr>)\<rparr>)"

definition disableWaveAnimation :: "World \<Rightarrow> nat \<Rightarrow> World" where
  "disableWaveAnimation w element =
     (if \<not> isBrowser w then w
      else w\<lparr>styles := (styles w)(element := (styles w element)
              \<lparr>style_animation := [], style_backgroundSize := []\<rparr>)\<rparr>)"

section \<open>Colour extractor (ColorExtractor)\<close>

text \<open>\<open>hasCanvas\<close> and \<open>hasCtx\<close> tell whether the fields \<open>canvas\<close> and \<open>ctx\<close> are
  non-null.\<close>

record ColorExtractor =
  options :: RequiredExtractorOptions
  hasCanvas :: bool
  hasCtx :: bool

definition spreadExtractorOptions ::
  "RequiredExtractorOptions \<Rightarrow> ExtractorOptions \<Rightarrow> RequiredExtractorOptions" where
  "spreadExtractorOptions base given =
     \<lparr>canvasSize = spread (canvasSize base) (canvasSize_opt given),
      sampleRate = spread (sampleRate base) (sampleRate_opt given),
      precision = spread (precision base) (precision_opt given),
      maxColors = spread (maxColors base) (maxColors_opt given)\<rparr>"

definition newColorExtractor :: "World \<Rightarrow> ExtractorOptions \<Rightarrow> ColorExtractor" where
  "newColorExtractor w opts =
     \<lparr>options = spreadExtractorOptions
                  \<lparr>canvasSize = 150, sampleRate = 32, precision = 25, maxColors = 8\<rparr> opts,
      hasCanvas = isBrowser w,
      hasCtx = (isBrowser w \<and> canvas2d w)\<rparr>"

text \<open>The library's name, with its accented letter as two bytes of UTF-8.\<close>

definition songName :: string where
  "songName = [CHR ''S'', CHR 0xC3, CHR 0xB3, CHR ''n'', CHR ''g'']"

definition capabilityError :: thrown where
  "capabilityError =
     ErrorObject (songName @ '': ColorExtractor requires browser environment with Canvas support'')"

definition loadError :: "string \<Rightarrow> thrown" where
  "loadError imageSource = ErrorObject (''Failed to load image: '' @ imageSource)"

text \<open>\<open>processImage\<close>: the \<open>try\<close> block resolves with the filtered colours, the \<open>catch\<close>
  rejects with whatever was thrown.\<close>

definition processImage ::
  "World \<Rightarrow> ColorExtractor \<Rightarrow> ImageSource \<Rightarrow> int \<Rightarrow> ColorRGB list promise" where
  "processImage w ex img count =
     (if \<not> hasCanvas ex \<or> \<not> hasCtx ex then Rejected (ErrorObject ''Canvas not available'')
      else
        case canvasStage w (options ex) img of
          Inl (c, rest) \<Rightarrow> Rejected (ErrorObject (c # rest))
        | Inr dominantColors \<Rightarrow> Resolved (filterColors dominantColors count))"

definition extractColors ::
  "World \<Rightarrow> ColorExtractor \<Rightarrow> ImageSource \<Rightarrow> int \<Rightarrow> World \<times> ColorRGB list promise" where
  "extractColors w ex imageSource count =
     (let w' = w\<lparr>extractCalls := extractCalls w @ [imageSource]\<rparr> in
      if \<not> isBrowser w \<or> \<not> hasCanvas ex \<or> \<not> hasCtx ex then (w', Rejected capabilityError)
      else
        case imageSource of
          Url u \<Rightarrow>
            if imageLoads w u then (w', processImage w ex imageSource count)
            else (w', Rejected (loadError u))
        | ImageElement src \<Rightarrow> (w', processImage w ex imageSource count))"

definition ColorExtractor_getOptions :: "ColorExtractor \<Rightarrow> RequiredExtractorOptions" where
  "ColorExtractor_getOptions ex = options ex"

definition ColorExtractor_updateOptions :: "ColorExtractor \<Rightarrow> ExtractorOptions \<Rightarrow> ColorExtractor" where
  "ColorExtractor_updateOptions ex newOptions =
     ex\<lparr>options := spreadExtractorOptions (options ex) newOptions\<rparr>"

definition ColorExtractor_destroy :: "ColorExtractor \<Rightarrow> ColorExtractor" where
  "ColorExtractor_destroy ex = (if hasCanvas ex then ex\<lparr>hasCanvas := False, hasCtx := False\<rparr> else ex)"

section \<open>Song\<close>

text \<open>The cache is a \<open>Map<string, string[]>\<close>: an association list in insertion order;
  \<open>has\<close> and \<open>get\<close> are \<open>map_of\<close>, \<open>set\<close> is \<open>AList.update\<close>, \<open>clear\<close> empties it.\<close>

record Song =
  extractor :: ColorExtractor
  generator :: WaveGenerator
  cache :: "(string \<times> string list) list"

record WaveResult =
  colors :: "string list"
  css :: string
  rgb :: "ColorRGB list"
  resultIntensity :: string
  harmony :: rat
  mood :: string
  isFlowing :: bool
  error :: "string option"

definition newSong :: "World \<Rightarrow> ExtractorOptions \<Rightarrow> WaveConfig \<Rightarrow> Song" where
  "newSong w extractorOptions waveConfig =
     \<lparr>extractor = newColorExtractor w extractorOptions,
      generator = newWaveGenerator waveConfig,
      cache = []\<rparr>"

text \<open>\<open>buildWaveResult\<close>.  The average brightness of an empty list is \<open>0 / 0\<close>, a NaN,
  for which both comparisons are false.\<close>

definition buildWaveResult ::
  "WaveGenerator \<Rightarrow> string list \<Rightarrow> bool \<Rightarrow> ColorRGB list option \<Rightarrow> string option \<Rightarrow> WaveResult" where
  "buildWaveResult gen cols flowing rgbArg err =
     (let rgbColors =
            (case rgbArg of
               Some given \<Rightarrow> given
             | None \<Rightarrow>
                 map (\<lambda>hex. case hexRegexExec hex of
                               Some (g1, g2, g3) \<Rightarrow>
                                 \<lparr>r = parseInt16 g1, g = parseInt16 g2, b = parseInt16 g3\<rparr>
                             | None \<Rightarrow> \<lparr>r = 107, g = 70, b = 193\<rparr>) cols);
          detectedIntensity =
            (if rgbColors = [] then ''medium''
             else
               let avgBrightness =
                     divD (foldl (\<lambda>sum color.
                                    addD sum (addD (addD (mulD (fl 0.299) (of_int (r color)))
                                                         (mulD (fl 0.587) (of_int (g color))))
                                                   (mulD (fl 0.114) (of_int (b color)))))
                                 0 rgbColors)
                          (of_nat (length rgbColors))
               in if avgBrightness > 180 then ''energetic''
                  else if avgBrightness < 100 then ''gentle''
                  else ''medium'')
      in \<lparr>colors = cols,
          css = generateCSS gen cols,
          rgb = rgbColors,
          resultIntensity = detectedIntensity,
          harmony = calculateHarmony rgbColors,
          mood = analyzeColorMood rgbColors,
          isFlowing = flowing,
          error = err\<rparr>)"

definition cacheKeyOf :: "ImageSource \<Rightarrow> string" where
  "cacheKeyOf imageSource = (case imageSource of Url u \<Rightarrow> u | ImageElement src \<Rightarrow> src)"

definition errorMessage :: "thrown \<Rightarrow> string" where
  "errorMessage e = (case e of ErrorObject message \<Rightarrow> message | OtherValue \<Rightarrow> ''Unknown error'')"

definition applyIfGiven :: "WaveGenerator \<Rightarrow> World \<Rightarrow> nat option \<Rightarrow> string list \<Rightarrow> World" where
  "applyIfGiven gen w element cols =
     (case element of Some e \<Rightarrow> applyToElement gen w e cols | None \<Rightarrow> w)"

text \<open>\<open>createWaves\<close>: the result is the new environment, the new Song and the settled
  promise.\<close>

definition createWaves ::
  "World \<Rightarrow> Song \<Rightarrow> ImageSource \<Rightarrow> nat option \<Rightarrow> World \<times> Song \<times> WaveResult promise" where
  "createWaves w s imageSource element =
     (let cacheKey = cacheKeyOf imageSource in
      case map_of (cache s) cacheKey of
        Some cachedColors \<Rightarrow>
          (let result = buildWaveResult (generator s) cachedColors True None None
           in (applyIfGiven (generator s) w element cachedColors, s, Resolved result))
      | None \<Rightarrow>
          (case extractColors w (extractor s) imageSource 2 of
             (w1, Resolved rgbColors) \<Rightarrow>
               (let hexColors = map rgbToHex rgbColors;
                    s1 = s\<lparr>cache := AList.update cacheKey hexColors (cache s)\<rparr>
                in (applyIfGiven (generator s1) w1 element hexColors, s1,
                    Resolved (buildWaveResult (generator s1) hexColors True (Some rgbColors) None)))
           | (w1, Rejected thrownValue) \<Rightarrow>
               (let fallback = fallbackColors (getConfig (generator s))
                in (applyIfGiven (generator s) w1 element fallback, s,
                    Resolved (buildWaveResult (generator s) fallback False None
                                (Some (errorMessage thrownValue)))))))"

definition flowToElements ::
  "World \<Rightarrow> Song \<Rightarrow> ImageSource \<Rightarrow> nat list \<Rightarrow> World \<times> Song \<times> WaveResult promise" where
  "flowToElements w s imageSource elements =
     (case createWaves w s imageSource None of
        (w1, s1, Resolved result) \<Rightarrow>
          ((if isBrowser w1 then applyToElements (generator s1) w1 elements (colors result) else w1),
           s1, Resolved result)
      | (w1, s1, Rejected e) \<Rightarrow> (w1, s1, Rejected e))"

definition Song_generateWaveCSS ::
  "World \<Rightarrow> Song \<Rightarrow> ImageSource \<Rightarrow> string \<Rightarrow> World \<times> Song \<times> (string \<times> string) list promise" where
  "Song_generateWaveCSS w s imageSource prefix =
     (case createWaves w s imageSource None of
        (w1, s1, Resolved result) \<Rightarrow>
          (w1, s1, Resolved (generateCSSVariables (generator s1) (colors result) prefix))
      | (w1, s1, Rejected e) \<Rightarrow> (w1, s1, Rejected e))"

definition applyGlobalWaves ::
  "World \<Rightarrow> Song \<Rightarrow> ImageSource \<Rightarrow> string \<Rightarrow> World \<times> Song \<times> WaveResult promise" where
  "applyGlobalWaves w s imageSource prefix =
     (case createWaves w s imageSource None of
        (w1, s1, Resolved result) \<Rightarrow>
          ((if isBrowser w1 then applyCSSVariables (generator s1) w1 (colors result) prefix else w1),
           s1, Resolved result)
      | (w1, s1, Rejected e) \<Rightarrow> (w1, s1, Rejected e))"

definition enableFlowAnimation :: "World \<Rightarrow> Song \<Rightarrow> nat \<Rightarrow> string \<Rightarrow> World" where
  "enableFlowAnimation w s element duration =
     (if isBrowser w then enableWaveAnimation w element duration else w)"

definition disableFlowAnimation :: "World \<Rightarrow> Song \<Rightarrow> nat \<Rightarrow> World" where
  "disableFlowAnimation w s element =
     (if isBrowser w then disableWaveAnimation w element else w)"

definition clearCache :: "Song \<Rightarrow> Song" where
  "clearCache s = s\<lparr>cache := []\<rparr>"

definition updateExtractorOptions :: "Song \<Rightarrow> ExtractorOptions \<Rightarrow> Song" where
  "updateExtractorOptions s opts =
     clearCache (s\<lparr>extractor := ColorExtractor_updateOptions (extractor s) opts\<rparr>)"

definition updateWaveConfig :: "Song \<Rightarrow> WaveConfig \<Rightarrow> Song" where
  "updateWaveConfig s cfg = s\<lparr>generator := updateConfig (generator s) cfg\<rparr>"

definition getExtractorOptions :: "Song \<Rightarrow> RequiredExtractorOptions" where
  "getExtractorOptions s = ColorExtractor_getOptions (extractor s)"

definition getWaveConfig :: "Song \<Rightarrow> RequiredWaveConfig" where
  "getWaveConfig s = getConfig (generator s)"

definition getCacheStats :: "Song \<Rightarrow> nat \<times> string list" where
  "getCacheStats s = (length (cache s), map fst (cache s))"

definition preloadColors ::
  "World \<Rightarrow> Song \<Rightarrow> ImageSource \<Rightarrow> World \<times> Song \<times> string list promise" where
  "preloadColors w s imageSource =
     (case createWaves w s imageSource None of
        (w1, s1, Resolved result) \<Rightarrow> (w1, s1, Resolved (colors result))
      | (w1, s1, Rejected e) \<Rightarrow> (w1, s1, Rejected e))"

definition destroy :: "Song \<Rightarrow> Song" where
  "destroy s = clearCache (s\<lparr>extractor := ColorExtractor_destroy (extractor s)\<rparr>)"

subsection \<open>The public operations of a Song, one at a time\<close>

text \<open>Each operation runs to completion before the next starts; the optional arguments
  \<open>prefix\<close> and \<open>duration\<close> take their defaults when absent.\<close>

datatype SongOp =
    CreateWaves ImageSource "nat option"
  | FlowToElements ImageSource "nat list"
  | GenerateWaveCSS ImageSource "string option"
  | ApplyGlobalWaves ImageSource "string option"
  | EnableFlowAnimation nat "string option"
  | DisableFlowAnimation nat
  | UpdateExtractorOptions ExtractorOptions
  | UpdateWaveConfig WaveConfig
  | GetExtractorOptions
  | GetWaveConfig
  | ClearCache
  | GetCacheStats
  | PreloadColors ImageSource
  | Destroy

fun perform :: "SongOp \<Rightarrow> World \<times> Song \<Rightarrow> World \<times> Song" where
  "perform (CreateWaves src element) (w, s) =
     (case createWaves w s src element of (w1, s1, _) \<Rightarrow> (w1, s1))"
| "perform (FlowToElements src elements) (w, s) =
     (case flowToElements w s src elements of (w1, s1, _) \<Rightarrow> (w1, s1))"
| "perform (GenerateWaveCSS src prefix) (w, s) =
     (case Song_generateWaveCSS w s src (spread ''song'' prefix) of (w1, s1, _) \<Rightarrow> (w1, s1))"
| "perform (ApplyGlobalWaves src prefix) (w, s) =
     (case applyGlobalWaves w s src (spread ''song'' prefix) of (w1, s1, _) \<Rightarrow> (w1, s1))"
| "perform (EnableFlowAnimation element duration) (w, s) =
     (enableFlowAnimation w s element (spread ''15s'' duration), s)"
| "perform (DisableFlowAnimation element) (w, s) = (disableFlowAnimation w s element, s)"
| "perform (UpdateExtractorOptions opts) (w, s) = (w, updateExtractorOptions s opts)"
| "perform (UpdateWaveConfig cfg) (w, s) = (w, updateWaveConfig s cfg)"
| "perform GetExtractorOptions (w, s) = (w, s)"
| "perform GetWaveConfig (w, s) = (w, s)"
| "perform ClearCache (w, s) = (w, clearCache s)"
| "perform GetCacheStats (w, s) = (w, s)"
| "perform (PreloadColors src) (w, s) =
     (case preloadColors w s src of (w1, s1, _) \<Rightarrow> (w1, s1))"
| "perform Destroy (w, s) = (w, destroy s)"

text \<open>A Song after a sequence of operations, from its construction.\<close>

definition runOps :: "World \<Rightarrow> ExtractorOptions \<Rightarrow> WaveConfig \<Rightarrow> SongOp list \<Rightarrow> World \<times> Song" where
  "runOps w extractorOptions waveConfig ops =
     foldl (\<lambda>st op. perform op st) (w, newSong w extractorOptions waveConfig) ops"

definition clearsCache :: "SongOp \<Rightarrow> bool" where
  "clearsCache op = (case op of ClearCache \<Rightarrow> True | Destroy \<Rightarrow> True
                      | UpdateExtractorOptions _ \<Rightarrow> True | _ \<Rightarrow> False)"

definition cacheKeys :: "World \<times> Song \<Rightarrow> string list" where
  "cacheKeys st = map fst (cache (snd st))"

subsection \<open>Concrete environments\<close>

text \<open>An environment without a document (\<open>isBrowser()\<close> is false), a browser in which
  only \<open>cover.png\<close> loads and yields two dominant colours (multiples of the default
  precision 25), a Song built with default
  options, and that Song after \<open>cover.png\<close> was extracted.\<close>

definition nodeWorld :: World where
  "nodeWorld = \<lparr>isBrowser = False, canvas2d = False, imageLoads = (\<lambda>u. False),
     canvasStage = (\<lambda>opts img. Inr []), styles = (\<lambda>element. noStyle), rootProperties = [],
     keyframesInjected = False, extractCalls = []\<rparr>"

definition browserWorld :: World where
  "browserWorld = \<lparr>isBrowser = True, canvas2d = True, imageLoads = (\<lambda>u. u = ''cover.png''),
     canvasStage = (\<lambda>opts img. Inr [grey100, sand]), styles = (\<lambda>element. noStyle),
     rootProperties = [], keyframesInjected = False, extractCalls = []\<rparr>"

definition plainSong :: "World \<Rightarrow> Song" where
  "plainSong w = newSong w emptyExtractorOptions emptyWaveConfig"

definition coverSong :: Song where
  "coverSong = (plainSong browserWorld)\<lparr>cache := [(''cover.png'', [''#646464'', ''#c8967d''])]\<rparr>"

section \<open>Properties of the rounding\<close>

lemma bitLength_nonneg: "0 \<le> bitLength n"
proof (induction n rule: bitLength.induct)
  case (1 n)
  then show ?case by (subst bitLength.simps) simp
qed

lemma bitLength_bounds:
  "0 < n \<Longrightarrow> 2 powi (bitLength n - 1) \<le> (of_int n :: rat) \<and> (of_int n :: rat) < 2 powi bitLength n"
proof (induction n rule: bitLength.induct)
  case (1 n)
  have bl: "bitLength n = 1 + bitLength (n div 2)"
    using "1.prems" by (subst bitLength.simps) simp
  show ?case
  proof (cases "n div 2 \<le> 0")
    case True
    then have n1: "n = 1" using "1.prems" by linarith
    have "bitLength (n div 2) = 0" using True by (subst bitLength.simps) simp
    then have "bitLength n = 1" using bl by simp
    then show ?thesis by (simp add: n1)
  next
    case False
    then have pos: "0 < n div 2" by simp
    have IH: "2 powi (bitLength (n div 2) - 1) \<le> (of_int (n div 2) :: rat)
        \<and> (of_int (n div 2) :: rat) < 2 powi bitLength (n div 2)"
      using "1.IH" "1.prems" pos by simp
    have lo: "2 * (of_int (n div 2) :: rat) \<le> of_int n"
    proof -
      have "2 * (n div 2) \<le> n" by simp
      then have "(of_int (2 * (n div 2)) :: rat) \<le> of_int n" by (simp only: of_int_le_iff)
      then show ?thesis by simp
    qed
    have hi: "(of_int n :: rat) \<le> 2 * of_int (n div 2) + 1"
    proof -
      have "n \<le> 2 * (n div 2) + 1" by linarith
      then have "(of_int n :: rat) \<le> of_int (2 * (n div 2) + 1)" by (simp only: of_int_le_iff)
      then show ?thesis by simp
    qed
    have p1: "(2::rat) powi (1 + bitLength (n div 2) - 1) = 2 * 2 powi (bitLength (n div 2) - 1)"
      by (simp add: power_int_diff)
    have p2: "(2::rat) powi (1 + bitLength (n div 2)) = 2 * 2 powi bitLength (n div 2)"
      by (simp add: power_int_add)
    have int_lt: "(of_int (n div 2) :: rat) + 1 \<le> 2 powi bitLength (n div 2)"
    proof -
      have "(of_int (n div 2) :: rat) < of_int (2 ^ nat (bitLength (n div 2)))"
        using IH bitLength_nonneg [of "n div 2"] by (simp add: power_int_def)
      then have "n div 2 < 2 ^ nat (bitLength (n div 2))" by (simp only: of_int_less_iff)
      then have "n div 2 + 1 \<le> 2 ^ nat (bitLength (n div 2))" by simp
      then have "(of_int (n div 2 + 1) :: rat) \<le> of_int (2 ^ nat (bitLength (n div 2)))"
        by (simp only: of_int_le_iff)
      then show ?thesis
        using bitLength_nonneg [of "n div 2"] by (simp add: power_int_def)
    qed
    show ?thesis
      unfolding bl p1 p2 using IH lo hi int_lt by linarith
  qed
qed


lemma binade_bounds:
  assumes "0 < a"
  shows "2 powi binade a \<le> a \<and> a < 2 powi (binade a + 1)"
proof -
  obtain p q where pq: "quotient_of a = (p, q)" by (cases "quotient_of a")
  have q: "0 < q" using pq by (rule quotient_of_denom_pos)
  have a: "a = of_int p / of_int q" using pq by (rule quotient_of_div)
  have p: "0 < p" using assms q by (simp add: a zero_less_divide_iff)
  have aq: "a * of_int q = of_int p" using q by (simp add: a)
  let ?bp = "bitLength p" and ?bq = "bitLength q"
  have Bp: "2 powi (?bp - 1) \<le> (of_int p :: rat)" "(of_int p :: rat) < 2 powi ?bp"
    using bitLength_bounds [OF p] by simp_all
  have Bq: "2 powi (?bq - 1) \<le> (of_int q :: rat)" "(of_int q :: rat) < 2 powi ?bq"
    using bitLength_bounds [OF q] by simp_all
  have pw: "(0::rat) < 2 powi k" for k :: int by simp
  have up: "a < 2 powi (?bp - ?bq + 1)"
  proof -
    have "a * 2 powi (?bq - 1) \<le> a * of_int q"
      using assms Bq(1) by (simp add: mult_left_mono)
    then have "a * 2 powi (?bq - 1) < 2 powi ?bp" using aq Bp(2) by simp
    then have "a < 2 powi ?bp / 2 powi (?bq - 1)" using pw [of "?bq - 1"]
      by (simp add: pos_less_divide_eq)
    moreover have "(2::rat) powi ?bp / 2 powi (?bq - 1) = 2 powi (?bp - (?bq - 1))"
      by (simp add: power_int_diff)
    ultimately show ?thesis by (simp add: algebra_simps)
  qed
  have lo: "2 powi (?bp - ?bq - 1) \<le> a"
  proof -
    have "a * of_int q \<le> a * 2 powi ?bq"
      using assms Bq(2) by (simp add: mult_left_mono)
    then have "2 powi (?bp - 1) \<le> a * 2 powi ?bq" using aq Bp(1) by simp
    then have "2 powi (?bp - 1) / 2 powi ?bq \<le> a" using pw [of ?bq]
      by (simp add: pos_divide_le_eq)
    moreover have "(2::rat) powi (?bp - 1) / 2 powi ?bq = 2 powi (?bp - 1 - ?bq)"
      by (simp add: power_int_diff)
    ultimately show ?thesis by (simp add: algebra_simps)
  qed
  show ?thesis
  proof (cases "2 powi (?bp - ?bq) \<le> a")
    case True
    then have "binade a = ?bp - ?bq" by (simp add: binade_def pq)
    then show ?thesis using True up by simp
  next
    case False
    then have "binade a = ?bp - ?bq - 1" by (simp add: binade_def pq)
    then show ?thesis using False lo by simp
  qed
qed

lemma roundHalfEven_of_int: "roundHalfEven (of_int n) = n"
  by (simp add: roundHalfEven_def)

lemma roundHalfEven_floor: "\<lfloor>y\<rfloor> \<le> roundHalfEven y \<and> roundHalfEven y \<le> \<lfloor>y\<rfloor> + 1"
  by (simp add: roundHalfEven_def Let_def)

lemma roundHalfEven_mono:
  assumes "x \<le> y"
  shows "roundHalfEven x \<le> roundHalfEven y"
proof (cases "\<lfloor>x\<rfloor> = \<lfloor>y\<rfloor>")
  case True
  then show ?thesis using assms by (auto simp: roundHalfEven_def Let_def)
next
  case False
  then have "\<lfloor>x\<rfloor> + 1 \<le> \<lfloor>y\<rfloor>" using floor_mono [OF assms] by simp
  then show ?thesis
    using roundHalfEven_floor [of x] roundHalfEven_floor [of y] by linarith
qed

lemma power_int_le_imp:
  assumes "(2::rat) powi m < 2 powi n"
  shows "m < n"
proof (rule ccontr)
  assume "\<not> m < n"
  then have "n \<le> m" by simp
  then have "(2::rat) powi n \<le> 2 powi m" by (rule power_int_increasing) simp
  then show False using assms by simp
qed

lemma fl_pos_range:
  assumes "0 < a"
  shows "fl a = of_int (roundHalfEven (a / 2 powi (binade a - 52))) * 2 powi (binade a - 52)"
    and "2 powi binade a \<le> fl a" and "fl a \<le> 2 powi (binade a + 1)"
proof -
  let ?e = "binade a" and ?u = "(2::rat) powi (binade a - 52)"
  have u: "0 < ?u" by simp
  show eq: "fl a = of_int (roundHalfEven (a / ?u)) * ?u"
    using assms by (simp add: fl_def Let_def)
  have e52: "(2::rat) powi ?e = 2 ^ 52 * ?u" and e53: "(2::rat) powi (?e + 1) = 2 ^ 53 * ?u"
    by (simp_all add: power_int_diff power_int_add)
  have "2 ^ 52 \<le> a / ?u" and "a / ?u \<le> 2 ^ 53"
    using binade_bounds [OF assms] u unfolding e52 e53
    by (simp_all add: pos_le_divide_eq pos_divide_le_eq)
  then have "roundHalfEven (of_int (2 ^ 52)) \<le> roundHalfEven (a / ?u)"
    and "roundHalfEven (a / ?u) \<le> roundHalfEven (of_int (2 ^ 53))"
    by (simp_all add: roundHalfEven_mono)
  then have "2 ^ 52 \<le> roundHalfEven (a / ?u)" and "roundHalfEven (a / ?u) \<le> 2 ^ 53"
    by (simp_all only: roundHalfEven_of_int)
  then have "(of_int (2 ^ 52) :: rat) \<le> of_int (roundHalfEven (a / ?u))"
    and "(of_int (roundHalfEven (a / ?u)) :: rat) \<le> of_int (2 ^ 53)"
    by (simp_all only: of_int_le_iff)
  then show "2 powi ?e \<le> fl a" and "fl a \<le> 2 powi (?e + 1)"
    unfolding eq e52 e53 using u by (simp_all add: mult_right_mono)
qed

lemma fl_mono_pos:
  assumes "0 < x" and "x \<le> y"
  shows "fl x \<le> fl y"
proof -
  have y: "0 < y" using assms by simp
  have "2 powi binade x \<le> x" using binade_bounds [OF assms(1)] by simp
  also have "x \<le> y" by fact
  also have "y < 2 powi (binade y + 1)" using binade_bounds [OF y] by simp
  finally have "binade x < binade y + 1" by (rule power_int_le_imp)
  then consider "binade x = binade y" | "binade x + 1 \<le> binade y" by linarith
  then show ?thesis
  proof cases
    case 1
    have "x / 2 powi (binade y - 52) \<le> y / 2 powi (binade y - 52)"
      using assms(2) by (simp add: divide_right_mono)
    then have "roundHalfEven (x / 2 powi (binade y - 52)) \<le> roundHalfEven (y / 2 powi (binade y - 52))"
      by (rule roundHalfEven_mono)
    then have "(of_int (roundHalfEven (x / 2 powi (binade y - 52))) :: rat)
        \<le> of_int (roundHalfEven (y / 2 powi (binade y - 52)))"
      by (simp only: of_int_le_iff)
    then show ?thesis
      unfolding fl_pos_range(1) [OF assms(1)] fl_pos_range(1) [OF y] 1
      by (simp add: mult_right_mono)
  next
    case 2
    have "fl x \<le> 2 powi (binade x + 1)" by (rule fl_pos_range(3) [OF assms(1)])
    also have "\<dots> \<le> 2 powi binade y" using 2 by (simp add: power_int_increasing)
    also have "\<dots> \<le> fl y" by (rule fl_pos_range(2) [OF y])
    finally show ?thesis .
  qed
qed

lemma fl_zero: "fl 0 = 0"
  by (simp add: fl_def)

lemma fl_minus: "fl (- x) = - fl x"
  by (simp add: fl_def Let_def)

lemma fl_pos: "0 < x \<Longrightarrow> 0 < fl x"
  using fl_pos_range(2) [of x] by (simp add: less_le_trans [of 0 "2 powi binade x"])

lemma fl_mono:
  assumes "x \<le> y"
  shows "fl x \<le> fl y"
proof -
  consider "0 < x" | "x = 0" "y = 0" | "x = 0" "0 < y" | "x < 0" "0 \<le> y" | "x < 0" "y < 0"
    using assms by linarith
  then show ?thesis
  proof cases
    case 1
    then show ?thesis using assms by (rule fl_mono_pos)
  next
    case 2
    then show ?thesis by simp
  next
    case 3
    then show ?thesis using fl_pos [of y] by (simp add: fl_zero)
  next
    case 4
    have "fl x < 0" using fl_pos [of "- x"] 4 by (simp add: fl_minus)
    moreover have "0 \<le> fl y" using fl_pos [of y] 4 by (cases "y = 0") (simp_all add: fl_zero)
    ultimately show ?thesis by simp
  next
    case 5
    have "fl (- y) \<le> fl (- x)" using 5 assms by (intro fl_mono_pos) simp_all
    then show ?thesis by (simp add: fl_minus)
  qed
qed

lemma fl_one: "fl 1 = 1"
  by code_simp

text \<open>The doubles that occur in the examples below, one rounding at a time.\<close>

lemma fl_steps:
  "fl (299 / 1000) = 5386305154335113 / 18014398509481984"
  "fl (134657628858377825 / 4503599627370496) = 4208050901824307 / 140737488355328"
  "fl (587 / 1000) = 2643612981266481 / 4503599627370496"
  "fl (66090324531662025 / 1125899906842624) = 8261290566457753 / 140737488355328"
  "fl (3117335367070515 / 35184372088832) = 3117335367070515 / 35184372088832"
  "fl (57 / 500) = 8214565720323785 / 72057594037927936"
  "fl (205364143008094625 / 18014398509481984) = 6417629469002957 / 562949953421312"
  "fl (56294995342131197 / 562949953421312) = 100"
  "fl (134657628858377825 / 2251799813685248) = 4208050901824307 / 70368744177664"
  "fl (198270973594986075 / 2251799813685248) = 6195967924843315 / 70368744177664"
  "fl (5202009413333811 / 35184372088832) = 5202009413333811 / 35184372088832"
  "fl (1026820715040473125 / 72057594037927936) = 57 / 4"
  "fl (5703386715599667 / 35184372088832) = 5703386715599667 / 35184372088832"
  "fl (1373507814355453815 / 18014398509481984) = 5365264899825991 / 70368744177664"
  "fl (674121310222952655 / 4503599627370496) = 2633286368058409 / 17592186044416"
  "fl (15898410372059627 / 70368744177664) = 3974602593014907 / 17592186044416"
  "fl (2094714258682565175 / 72057594037927936) = 4091238786489385 / 140737488355328"
  "fl (35888059530608641 / 140737488355328) = 255"
  "fl (177748070093058729 / 9007199254740992) = 5554627190408085 / 281474976710656"
  "fl (2643612981266481 / 35184372088832) = 2643612981266481 / 35184372088832"
  "fl (26703531040539933 / 281474976710656) = 6675882760134983 / 70368744177664"
  "fl (369655457414570325 / 72057594037927936) = 5775866522102661 / 1125899906842624"
  "fl (112589990684262389 / 1125899906842624) = 7036874417766399 / 70368744177664"
  "fl (662515533983218899 / 18014398509481984) = 2587951304621949 / 70368744177664"
  "fl (626536276560155997 / 4503599627370496) = 4894814660626219 / 35184372088832"
  "fl (12377580625874387 / 70368744177664) = 3094395156468597 / 17592186044416"
  "fl (73931091482914065 / 18014398509481984) = 4620693217682129 / 1125899906842624"
  "fl (202661983231672337 / 1125899906842624) = 6333186975989761 / 35184372088832"
  "fl (37704136080345791 / 9007199254740992) = 589127126255403 / 140737488355328"
  "fl (7930838943799443 / 281474976710656) = 7930838943799443 / 281474976710656"
  "fl (9109093196310249 / 281474976710656) = 1138636649538781 / 35184372088832"
  "fl (550375903261693595 / 72057594037927936) = 4299811744231981 / 562949953421312"
  "fl (22517998136852477 / 562949953421312) = 5629499534213119 / 140737488355328"
  "fl (48476746389016017 / 1125899906842624) = 3029796649313501 / 70368744177664"
  "fl (298728266883112353 / 2251799813685248) = 4667629170048631 / 35184372088832"
  "fl (12365054989410763 / 70368744177664) = 3091263747352691 / 17592186044416"
  "fl (1749702498428966205 / 72057594037927936) = 6834775384488149 / 281474976710656"
  "fl (56294995342131205 / 281474976710656) = 7036874417766401 / 35184372088832"
  "fl (67 / 79) = 7639017089463879 / 9007199254740992"
  "fl (7639017089463879 / 9007199254740992) = 7639017089463879 / 9007199254740992"
  "fl (6333186975989761 / 35184372088832) = 6333186975989761 / 35184372088832"
  "fl (1 / 2) = 1 / 2"
  "fl (3 / 10) = 5404319552844595 / 18014398509481984"
  "fl (7 / 10) = 3152519739159347 / 4503599627370496"
  "fl 255 = 255"
  "fl 510 = 510"
  "fl (83 / 128) = 83 / 128"
  "fl (7036874417766399 / 70368744177664) = 7036874417766399 / 70368744177664"
  "fl (1 / 6) = 6004799503160661 / 36028797018963968"
  "fl (30023997515803307 / 36028797018963968) = 7505999378950827 / 9007199254740992"
  "fl (7505999378950827 / 9007199254740992) = 7505999378950827 / 9007199254740992"
  "fl 1 = 1"
  "fl (4 / 5) = 3602879701896397 / 4503599627370496"
  "fl (900719925474099 / 4503599627370496) = 900719925474099 / 4503599627370496"
  by code_simp+

lemmas double_ops = addD_def subD_def mulD_def divD_def fl_zero fl_steps

lemma brightness_grey: "calculateBrightness \<lparr>r = 100, g = 100, b = 100\<rparr> = 100"
  by (simp add: calculateBrightness_def double_ops)

text \<open>Four colours whose luminance is 100, 180, 40 and 200 in exact arithmetic; as
  doubles the sums are 99.99999999999999, 180.00000000000003, 39.99999999999999 and
  200.00000000000003.\<close>

lemma brightness_thresholds:
  "calculateBrightness \<lparr>r = 66, g = 128, b = 45\<rparr> = 7036874417766399 / 70368744177664"
  "calculateBrightness \<lparr>r = 123, g = 237, b = 36\<rparr> = 6333186975989761 / 35184372088832"
  "calculateBrightness \<lparr>r = 14, g = 48, b = 67\<rparr> = 5629499534213119 / 140737488355328"
  "calculateBrightness \<lparr>r = 144, g = 226, b = 213\<rparr> = 7036874417766401 / 35184372088832"
  by (simp_all add: calculateBrightness_def double_ops)

lemma brightness_sand:
  "calculateBrightness \<lparr>r = 200, g = 150, b = 125\<rparr> = 5703386715599667 / 35184372088832"
  by (simp add: calculateBrightness_def double_ops)

section \<open>Properties of the perceptual filter\<close>

lemma calculateColorDifference_sym:
  "calculateColorDifference c1 c2 = calculateColorDifference c2 c1"
  by (simp add: calculateColorDifference_def abs_minus_commute)

lemma padLoop_done: "\<not> int (length f) < n \<Longrightarrow> padLoop f n = f"
  by (subst padLoop.simps) simp

lemma padLoop_nonempty:
  "f \<noteq> [] \<Longrightarrow> padLoop f n = f @ replicate (nat (n - int (length f))) pink"
proof (induction f n rule: padLoop.induct)
  case (1 filtered n)
  show ?case
  proof (cases "int (length filtered) < n")
    case True
    have "padLoop filtered n = padLoop (filtered @ [pink]) n"
      using True "1.prems" by (subst padLoop.simps) simp
    also have "\<dots> = (filtered @ [pink]) @ replicate (nat (n - int (length (filtered @ [pink])))) pink"
      using "1.IH" [OF True] "1.prems" by simp
    also have "\<dots> = filtered @ replicate (Suc (nat (n - int (length filtered) - 1))) pink"
      by (simp add: algebra_simps)
    also have "Suc (nat (n - int (length filtered) - 1)) = nat (n - int (length filtered))"
      using True by simp
    finally show ?thesis .
  next
    case False
    then show ?thesis by (simp add: padLoop_done)
  qed
qed

lemma padLoop_empty:
  "padLoop [] n = (if 0 < n then purple # replicate (nat n - 1) pink else [])"
proof (cases "0 < n")
  case True
  have "padLoop [] n = padLoop [purple] n"
    using True by (subst padLoop.simps) simp
  also have "\<dots> = [purple] @ replicate (nat (n - 1)) pink"
    by (simp add: padLoop_nonempty)
  finally show ?thesis using True by (simp add: nat_diff_distrib')
next
  case False
  then show ?thesis by (simp add: padLoop_done)
qed

lemma padLoop_eq: "padLoop f n = f @ padding f n"
  by (simp add: padding_def padLoop_empty padLoop_nonempty)

lemma length_padding: "length (padding f n) = nat (n - int (length f))"
  by (auto simp: padding_def)

lemma set_padding: "set (padding f n) \<subseteq> {purple, pink}"
  by (auto simp: padding_def)

lemma filterLoop_length:
  "int (length filtered) < n \<Longrightarrow> int (length (filterLoop cs n filtered)) \<le> n"
  by (induction cs arbitrary: filtered) (auto simp: Let_def)

lemma filterLoop_length_nonpos_gen:
  "n \<le> 0 \<Longrightarrow> length (filterLoop cs n f) \<le> Suc (length f)"
proof (induction cs arbitrary: f)
  case Nil
  then show ?case by simp
next
  case (Cons c cs)
  have "n \<le> int (length xs)" for xs :: "ColorRGB list"
    using Cons.prems by simp
  then show ?case
    using Cons.IH [OF Cons.prems, of f] by (simp add: Let_def)
qed

lemma filterLoop_length_nonpos:
  "n \<le> 0 \<Longrightarrow> length (filterLoop cs n []) \<le> 1"
  using filterLoop_length_nonpos_gen [of n cs "[]"] by simp

lemma filterColors_eq:
  assumes "int (length (filterLoop cs n [])) \<le> n"
  shows "filterColors cs n = filterLoop cs n [] @ padding (filterLoop cs n []) n"
proof -
  have "length (filterLoop cs n [] @ padding (filterLoop cs n []) n) = nat n"
    using assms by (simp add: length_padding)
  moreover have "0 \<le> n" using assms by simp
  ultimately show ?thesis
    by (simp add: filterColors_def padLoop_eq slice0_def)
qed

lemma filterLoop_far:
  "sorted_wrt (\<lambda>c1 c2. 80 \<le> calculateColorDifference c1 c2) filtered
   \<Longrightarrow> sorted_wrt (\<lambda>c1 c2. 80 \<le> calculateColorDifference c1 c2) (filterLoop cs n filtered)"
proof (induction cs arbitrary: filtered)
  case Nil
  then show ?case by simp
next
  case (Cons c cs)
  have ext: "sorted_wrt (\<lambda>c1 c2. 80 \<le> calculateColorDifference c1 c2) (filtered @ [c])"
    if "isColorUnique c filtered 80"
    using that Cons.prems
    by (auto simp: isColorUnique_def list_ex_iff sorted_wrt_append not_less
        calculateColorDifference_sym [of _ c])
  show ?case
    using Cons.IH [of filtered] Cons.IH [of "filtered @ [c]"] Cons.prems ext
    by (simp add: Let_def)
qed

text \<open>Claim C1: for every candidate list and every requested count of at least 1, the
  result of \<open>filterColors\<close> has exactly the requested length; it starts with the colours
  the filter accepted, and everything after them is one of the two fixed fallback
  colours.\<close>

theorem filterColors_length:
  assumes "1 \<le> n"
  shows "int (length (filterColors cs n)) = n
    \<and> take (length (filterLoop cs n [])) (filterColors cs n)
        = filterLoop cs n []
    \<and> set (drop (length (filterLoop cs n [])) (filterColors cs n))
        \<subseteq> {purple, pink}"
proof -
  let ?acc = "filterLoop cs n []"
  have le: "int (length ?acc) \<le> n"
    using assms filterLoop_length [of "[]" n cs] by simp
  have eq: "filterColors cs n = ?acc @ padding ?acc n"
    by (rule filterColors_eq [OF le])
  have "int (length (filterColors cs n)) = n"
    using le by (simp add: eq length_padding)
  moreover have "take (length ?acc) (filterColors cs n) = ?acc"
    by (simp add: eq)
  moreover have "set (drop (length ?acc) (filterColors cs n)) \<subseteq> {purple, pink}"
    using set_padding [of ?acc n] by (simp add: eq)
  ultimately show ?thesis by blast
qed

lemma filterLoop_grey: "filterLoop [grey100] 2 [] = [grey100]"
  by (simp add: grey100_def brightness_grey isColorUnique_def)

lemma filterColors_grey: "filterColors [grey100] 2 = [grey100, pink]"
  unfolding filterColors_def filterLoop_grey by (simp add: padLoop.simps slice0_def)

text \<open>Claim C1, at one grey candidate and a requested count of 2.\<close>

theorem filterColors_length_witness:
  "(1::int) \<le> 2 \<and> int (length (filterColors [grey100] 2)) = 2
   \<and> take (length (filterLoop [grey100] 2 [])) (filterColors [grey100] 2) = filterLoop [grey100] 2 []
   \<and> set (drop (length (filterLoop [grey100] 2 [])) (filterColors [grey100] 2)) \<subseteq> {purple, pink}"
  using filterColors_length [of 2 "[grey100]"] by simp

text \<open>Claim C2 as stated fails: with one accepted colour and a requested count of 2 the
  first (and only) padded colour is pink, not purple.\<close>

theorem padding_first_counterexample:
  "filterLoop [grey100] 2 [] = [grey100] \<and> filterColors [grey100] 2 = [grey100, pink]
   \<and> filterColors [grey100] 2 ! 1 \<noteq> purple"
proof -
  have "pink \<noteq> purple" by (simp add: pink_def purple_def)
  then show ?thesis unfolding filterLoop_grey filterColors_grey by simp
qed

text \<open>Claim C2, amended: when fewer colours than requested are accepted, the padding is
  purple followed by pink only if no colour was accepted (the purple then sits at position
  0); if at least one colour was accepted, every padded colour is pink.\<close>

theorem padding_order:
  assumes "int (length (filterLoop cs n [])) < n"
  shows "filterColors cs n =
     filterLoop cs n [] @
       (if filterLoop cs n [] = []
        then purple # replicate (nat n - 1) pink
        else replicate (nat n - length (filterLoop cs n [])) pink)"
proof -
  let ?acc = "filterLoop cs n []"
  have eq: "filterColors cs n = ?acc @ padding ?acc n"
    using assms by (intro filterColors_eq) simp
  have "0 < n" using assms by simp
  then show ?thesis
    by (simp add: eq padding_def nat_diff_distrib')
qed

text \<open>Claim C2, amended, at one accepted colour (count 2) and at no candidate (count 3).\<close>

theorem padding_order_witness:
  "int (length (filterLoop [grey100] 2 [])) < 2
   \<and> filterColors [grey100] 2 = [grey100] @ [pink]
   \<and> int (length (filterLoop [] 3 [])) < 3
   \<and> filterColors [] 3 = [purple, pink, pink]"
  using padding_order [of "[grey100]" 2, unfolded filterLoop_grey]
    padding_order [of "[]" 3]
  unfolding filterLoop_grey by (simp add: numeral_eq_Suc)

text \<open>The two colours just outside the brightness band are skipped.\<close>

lemma filterLoop_thresholds:
  "filterLoop [\<lparr>r = 14, g = 48, b = 67\<rparr>, \<lparr>r = 144, g = 226, b = 213\<rparr>] 2 [] = []"
  by (simp add: brightness_thresholds)

text \<open>Claim C6: any two colours at different positions among the accepted (not padded)
  colours of the result of \<open>filterColors\<close> are at Manhattan distance
  \<open>|r1-r2| + |g1-g2| + |b1-b2|\<close> at least 80.\<close>

theorem accepted_far_apart:
  assumes "i < j" and "j < length (filterLoop cs n [])"
  shows "filterColors cs n ! i = filterLoop cs n [] ! i
    \<and> filterColors cs n ! j = filterLoop cs n [] ! j
    \<and> 80 \<le> \<bar>r (filterColors cs n ! i) - r (filterColors cs n ! j)\<bar>
            + \<bar>g (filterColors cs n ! i) - g (filterColors cs n ! j)\<bar>
            + \<bar>b (filterColors cs n ! i) - b (filterColors cs n ! j)\<bar>"
proof -
  let ?acc = "filterLoop cs n []"
  have pos: "0 < n"
    using assms filterLoop_length_nonpos [of n cs] by (cases "0 < n") auto
  then have le: "int (length ?acc) \<le> n"
    using filterLoop_length [of "[]" n cs] by simp
  have eq: "filterColors cs n = ?acc @ padding ?acc n"
    by (rule filterColors_eq [OF le])
  have "sorted_wrt (\<lambda>c1 c2. 80 \<le> calculateColorDifference c1 c2) ?acc"
    by (rule filterLoop_far) simp
  then have "80 \<le> calculateColorDifference (?acc ! i) (?acc ! j)"
    using assms by (simp add: sorted_wrt_iff_nth_less)
  then have "80 \<le> \<bar>r (?acc ! i) - r (?acc ! j)\<bar> + \<bar>g (?acc ! i) - g (?acc ! j)\<bar>
      + \<bar>b (?acc ! i) - b (?acc ! j)\<bar>"
    by (simp add: calculateColorDifference_def)
  then show ?thesis
    using assms by (simp add: eq nth_append)
qed

lemma filterLoop_grey_sand: "filterLoop [grey100, sand] 2 [] = [grey100, sand]"
  by (simp add: grey100_def sand_def brightness_grey brightness_sand isColorUnique_def
      calculateColorDifference_def)

text \<open>Claim C6, at two candidates that are both accepted, at distance 175.\<close>

theorem accepted_far_apart_witness:
  "(0::nat) < 1 \<and> 1 < length (filterLoop [grey100, sand] 2 [])
   \<and> filterColors [grey100, sand] 2 ! 0 = grey100
   \<and> filterColors [grey100, sand] 2 ! 1 = sand
   \<and> 80 \<le> \<bar>r (filterColors [grey100, sand] 2 ! 0) - r (filterColors [grey100, sand] 2 ! 1)\<bar>
            + \<bar>g (filterColors [grey100, sand] 2 ! 0) - g (filterColors [grey100, sand] 2 ! 1)\<bar>
            + \<bar>b (filterColors [grey100, sand] 2 ! 0) - b (filterColors [grey100, sand] 2 ! 1)\<bar>"
  using accepted_far_apart [of 0 1 "[grey100, sand]" 2, unfolded filterLoop_grey_sand]
  unfolding filterLoop_grey_sand by auto

section \<open>Properties of the utilities and of the wave generator\<close>

lemma subD_le_one: "0 \<le> q \<Longrightarrow> subD 1 q \<le> 1"
  using fl_mono [of "1 - q" 1] by (simp add: subD_def fl_one)

lemma divD_nonneg: "0 \<le> x \<Longrightarrow> 0 < y \<Longrightarrow> 0 \<le> divD x y"
  using fl_mono [of 0 "x / y"] by (simp add: divD_def fl_zero)

lemma pairScore_bounds: "0 \<le> pairScore p \<and> pairScore p \<le> 1"
proof -
  obtain c1 c2 where p: "p = (c1, c2)" by (cases p)
  let ?k = "\<bar>(\<bar>r c1 - r c2\<bar> + \<bar>g c1 - g c2\<bar> + \<bar>b c1 - b c2\<bar>) - 150\<bar>"
  have "0 \<le> divD (of_int ?k) 150" by (rule divD_nonneg) simp_all
  then have "subD 1 (divD (of_int ?k) 150) \<le> 1" by (rule subD_le_one)
  then show ?thesis by (simp add: p pairScore_def)
qed

lemma harmony_invariant:
  assumes "0 \<le> sc" and "sc \<le> cmp"
  shows "0 \<le> foldl addD sc (map pairScore ps)
    \<and> foldl addD sc (map pairScore ps) \<le> foldl (\<lambda>n x. addD n 1) cmp ps"
  using assms
proof (induction ps arbitrary: sc cmp)
  case Nil
  then show ?case by simp
next
  case (Cons p ps)
  have s: "0 \<le> pairScore p" "pairScore p \<le> 1" using pairScore_bounds [of p] by simp_all
  have a: "0 \<le> addD sc (pairScore p)"
    using fl_mono [of 0 "sc + pairScore p"] Cons.prems s by (simp add: addD_def fl_zero)
  have b: "addD sc (pairScore p) \<le> addD cmp 1"
    using Cons.prems s by (simp add: addD_def fl_mono)
  show ?case using Cons.IH [OF a b] by simp
qed

lemma count_nonneg: "0 \<le> n \<Longrightarrow> 0 \<le> foldl (\<lambda>n x. addD n 1) n ps"
proof (induction ps arbitrary: n)
  case Nil
  then show ?case by simp
next
  case (Cons p ps)
  have "0 \<le> addD n 1"
    using fl_mono [of 0 "n + 1"] Cons.prems by (simp add: addD_def fl_zero)
  then show ?case using Cons.IH by simp
qed

lemma countD_pos: "ps \<noteq> [] \<Longrightarrow> 1 \<le> countD ps"
proof (cases ps rule: rev_cases)
  case Nil
  assume "ps \<noteq> []"
  then show ?thesis using Nil by simp
next
  case (snoc qs q)
  have "0 \<le> foldl (\<lambda>n x. addD n 1) 0 qs" by (rule count_nonneg) simp
  then have "fl 1 \<le> fl (foldl (\<lambda>n x. addD n 1) 0 qs + 1)" by (intro fl_mono) simp
  then show ?thesis by (simp add: snoc countD_def addD_def fl_one)
qed

lemma harmonyInner_eq:
  "harmonyInner ci rest (sc, cmp) =
     (foldl addD sc (map (\<lambda>cj. pairScore (ci, cj)) rest), foldl (\<lambda>n x. addD n 1) cmp rest)"
  by (induction rest arbitrary: sc cmp)
    (simp_all add: pairScore_def calculateColorDifference_def Let_def)

lemma harmonyOuter_eq:
  "harmonyOuter cs (sc, cmp) =
     (foldl addD sc (map pairScore (colorPairs cs)), foldl (\<lambda>n x. addD n 1) cmp (colorPairs cs))"
  by (induction cs arbitrary: sc cmp) (simp_all add: harmonyInner_eq foldl_map comp_def)

lemma colorPairs_nonempty: "2 \<le> length cs \<Longrightarrow> colorPairs cs \<noteq> []"
  by (cases cs; cases "tl cs") auto

lemma calculateHarmony_spec: "calculateHarmony cs = harmonySpec cs"
proof (cases "length cs < 2")
  case True
  then show ?thesis by (simp add: calculateHarmony_def harmonySpec_def)
next
  case False
  then have "colorPairs cs \<noteq> []" using colorPairs_nonempty [of cs] by simp
  then have "0 < countD (colorPairs cs)" using countD_pos [of "colorPairs cs"] by simp
  then show ?thesis
    using False by (simp add: calculateHarmony_def harmonySpec_def harmonyOuter_eq sumD_def countD_def)
qed

lemma harmonySpec_bounds: "0 \<le> harmonySpec cs \<and> harmonySpec cs \<le> 1"
proof (cases "length cs < 2")
  case True
  then show ?thesis by (simp add: harmonySpec_def)
next
  case False
  let ?ps = "colorPairs cs"
  have ne: "?ps \<noteq> []" using False colorPairs_nonempty [of cs] by simp
  have pos: "0 < countD ?ps" using countD_pos [OF ne] by simp
  have inv: "0 \<le> sumD (map pairScore ?ps)" "sumD (map pairScore ?ps) \<le> countD ?ps"
    using harmony_invariant [of 0 0 ?ps] by (simp_all add: sumD_def countD_def)
  have "0 \<le> sumD (map pairScore ?ps) / countD ?ps" using inv(1) pos by simp
  then have lo: "0 \<le> divD (sumD (map pairScore ?ps)) (countD ?ps)"
    using fl_mono [of 0 "sumD (map pairScore ?ps) / countD ?ps"] by (simp add: divD_def fl_zero)
  have "sumD (map pairScore ?ps) / countD ?ps \<le> 1" using inv(2) pos by simp
  then have hi: "divD (sumD (map pairScore ?ps)) (countD ?ps) \<le> 1"
    using fl_mono [of "sumD (map pairScore ?ps) / countD ?ps" 1] by (simp add: divD_def fl_one)
  show ?thesis using False lo hi by (simp add: harmonySpec_def)
qed

text \<open>Claim C7: \<open>calculateHarmony\<close> is the average over all unordered pairs of
  \<open>max(0, 1 - |distance - 150| / 150)\<close>, with the Manhattan distance of the pair; it lies
  between 0 and 1, and it is exactly 1 for fewer than two colours.\<close>

theorem harmony_range:
  "calculateHarmony cs = harmonySpec cs
   \<and> 0 \<le> calculateHarmony cs \<and> calculateHarmony cs \<le> 1
   \<and> (length cs < 2 \<longrightarrow> calculateHarmony cs = 1)"
  using harmonySpec_bounds [of cs]
  by (simp add: calculateHarmony_spec) (simp add: harmonySpec_def)

lemma harmony_grey_sand: "harmonySpec [grey100, sand] = 7505999378950827 / 9007199254740992"
  by (simp add: harmonySpec_def pairScore_def sumD_def countD_def grey100_def sand_def double_ops)

lemma harmony_rounds: "harmonySpec [grey100, \<lparr>r = 200, g = 200, b = 170\<rparr>]
    = 900719925474099 / 4503599627370496"
  by (simp add: harmonySpec_def pairScore_def sumD_def countD_def grey100_def double_ops)

text \<open>Claim C7, at a single colour, at a pair of colours at distance 175, and at a pair at
  distance 270, where the double \<open>1 - 120 / 150\<close> is just below \<open>1 / 5\<close>.\<close>

theorem harmony_range_witness:
  "length [grey100] < 2 \<and> calculateHarmony [grey100] = 1
   \<and> calculateHarmony [grey100, sand] = 7505999378950827 / 9007199254740992
   \<and> calculateHarmony [grey100, \<lparr>r = 200, g = 200, b = 170\<rparr>]
       = 900719925474099 / 4503599627370496"
  using harmony_range [of "[grey100]"] harmony_range [of "[grey100, sand]"]
    harmony_range [of "[grey100, \<lparr>r = 200, g = 200, b = 170\<rparr>]"]
  unfolding harmony_grey_sand harmony_rounds by simp

lemma moodLoop_eq:
  "moodLoop cs (ts, tb) =
     (foldl addD ts (map saturationOf cs), foldl addD tb (map luminance cs))"
  by (induction cs arbitrary: ts tb)
    (simp_all add: saturationOf_def luminance_def calculateBrightness_def Let_def)

lemma analyzeColorMood_spec: "analyzeColorMood cs = moodSpec cs"
proof (cases "cs = []")
  case True
  then show ?thesis by (simp add: analyzeColorMood_def moodSpec_def)
next
  case False
  have loop: "moodLoop cs (0, 0) = (sumD (map saturationOf cs), sumD (map luminance cs))"
    by (simp add: moodLoop_eq sumD_def)
  have len: "(length cs = 0) = False" using False by simp
  show ?thesis
    unfolding analyzeColorMood_def moodSpec_def moodTable_def average_def Let_def loop
    by (simp only: len False if_False split_conv length_map)
qed

lemma mood_white: "moodSpec [white, white] = ''bright''"
  by (simp add: moodSpec_def moodTable_def average_def sumD_def luminance_def saturationOf_def
      white_def double_ops)

lemma mood_threshold: "moodSpec [\<lparr>r = 66, g = 128, b = 45\<rparr>] = ''dark''"
  by (simp add: moodSpec_def moodTable_def average_def sumD_def luminance_def saturationOf_def
      double_ops)

lemma mood_energetic: "moodSpec [\<lparr>r = 123, g = 237, b = 36\<rparr>] = ''energetic''"
  by (simp add: moodSpec_def moodTable_def average_def sumD_def luminance_def saturationOf_def
      double_ops)

text \<open>Claim C8: \<open>analyzeColorMood\<close> is the threshold table of the specification applied to
  the average brightness and the average approximate saturation, with \<open>neutral\<close> for the
  empty list; two white colours give \<open>bright\<close>.\<close>

theorem mood_table:
  "analyzeColorMood cs = moodSpec cs \<and> analyzeColorMood [white, white] = ''bright''"
  by (simp add: analyzeColorMood_spec mood_white)

text \<open>Claim C8, at the colours (66, 128, 45) and (123, 237, 36), whose average brightness
  as a double is just below 100 and just above 180.\<close>

theorem mood_table_witness:
  "analyzeColorMood [\<lparr>r = 66, g = 128, b = 45\<rparr>] = ''dark''
   \<and> analyzeColorMood [\<lparr>r = 123, g = 237, b = 36\<rparr>] = ''energetic''
   \<and> analyzeColorMood [white, white] = ''bright''"
  using mood_table [of "[\<lparr>r = 66, g = 128, b = 45\<rparr>]"]
    mood_table [of "[\<lparr>r = 123, g = 237, b = 36\<rparr>]"]
  unfolding mood_threshold mood_energetic by simp

text \<open>Claim C5: what the constructor of \<open>WaveGenerator\<close> does when the configuration
  has neither a transition nor a flow speed: the effective transition is the timing for the
  flow speed \<open>medium\<close>, and not the documented default \<open>all 1.5s ease-out\<close>.\<close>

theorem default_transition:
  "transition (getConfig (newWaveGenerator (cfg\<lparr>transition_opt := None, flowSpeed_opt := None\<rparr>)))
     = ''all 1.5s cubic-bezier(0.4, 0, 0.2, 1)''
   \<and> transition (getConfig (newWaveGenerator emptyWaveConfig)) \<noteq> ''all 1.5s ease-out''"
  by (simp add: getConfig_def newWaveGenerator_def spreadWaveConfig_def defaultWaveConfig_def
      spread_def truthy_def getTransitionTiming_def emptyWaveConfig_def Let_def)

subsection \<open>Hex strings\<close>

lemma hexDigit_props:
  "\<forall>d<16. isHexChar (hexDigit d) \<and> hexValue (hexDigit d) = int d \<and> hexDigit d \<noteq> CHR ''#''"
  by (simp add: All_less_Suc numeral_eq_Suc hexDigit_def isHexChar_def hexValue_def)

lemma toString16_small: "k < 256 \<Longrightarrow>
  padStart0 2 (toString16 k) = [hexDigit (k div 16), hexDigit (k mod 16)]"
proof (cases "k < 16")
  case True
  then show ?thesis
    by (subst toString16.simps) (simp add: padStart0_def hexDigit_def)
next
  case False
  assume "k < 256"
  then have "k div 16 < 16" by simp
  then have "toString16 (k div 16) = [hexDigit (k div 16)]"
    by (subst toString16.simps) simp
  then show ?thesis using False
    by (subst toString16.simps) (simp add: padStart0_def)
qed

lemma toHex_eq:
  assumes "0 \<le> n" "n \<le> 255"
  shows "toHex n = [hexDigit (nat n div 16), hexDigit (nat n mod 16)]"
proof -
  have "nat n < 256" using assms by simp
  then show ?thesis using assms by (simp add: toHex_def toString16_small)
qed

lemma parse_toHex:
  assumes "0 \<le> n" "n \<le> 255"
  shows "parseInt16 [hexDigit (nat n div 16), hexDigit (nat n mod 16)] = n"
proof -
  have a: "nat n div 16 < 16" using assms by simp
  have b: "nat n mod 16 < 16" by simp
  have "int (nat n div 16) * 16 + int (nat n mod 16) = int (nat n)"
    by (simp add: zdiv_int zmod_int)
  then show ?thesis
    using hexDigit_props a b assms by (simp add: parseInt16_def)
qed

lemma hexToRgb_roundtrip:
  fixes c :: ColorRGB
  assumes "0 \<le> r c" "r c \<le> 255" "0 \<le> g c" "g c \<le> 255" "0 \<le> b c" "b c \<le> 255"
  shows "hexToRgb (rgbToHex c) = Some c"
proof -
  have hx: "isHexChar (hexDigit (nat n div 16)) \<and> isHexChar (hexDigit (nat n mod 16))"
    if "0 \<le> n" "n \<le> 255" for n :: int
  proof -
    have "nat n div 16 < 16" using that by simp
    moreover have "nat n mod 16 < 16" by simp
    ultimately show ?thesis using hexDigit_props by blast
  qed
  have "hexRegexExec (rgbToHex c) =
      Some ([hexDigit (nat (r c) div 16), hexDigit (nat (r c) mod 16)],
            [hexDigit (nat (g c) div 16), hexDigit (nat (g c) mod 16)],
            [hexDigit (nat (b c) div 16), hexDigit (nat (b c) mod 16)])"
    using assms hx [of "r c"] hx [of "g c"] hx [of "b c"]
    by (simp add: rgbToHex_def toHex_eq hexRegexExec_def)
  then show ?thesis
    using assms by (simp add: hexToRgb_def parse_toHex)
qed

lemma char_in_range:
  assumes "lo \<le> (of_char c :: nat)" and "(of_char c :: nat) < hi"
  shows "c \<in> char_of ` set [lo..<hi]"
proof -
  have "(of_char c :: nat) \<in> set [lo..<hi]" using assms by simp
  then have "char_of (of_char c :: nat) \<in> char_of ` set [lo..<hi]" by (rule imageI)
  then show ?thesis by simp
qed

lemma digit_chars: "char_of ` set [48..<58::nat] \<subseteq> hexDigits"
  by (simp add: upt_rec hexDigits_def char_of_def bit_Suc_0_iff)

lemma lower_chars: "char_of ` set [97..<103::nat] \<subseteq> hexDigits"
  by (simp add: upt_rec hexDigits_def char_of_def bit_Suc_0_iff)

lemma upper_chars: "char_of ` set [65..<71::nat] \<subseteq> hexDigits"
  by (simp add: upt_rec hexDigits_def char_of_def bit_Suc_0_iff)

lemma isHexChar_iff: "isHexChar c \<longleftrightarrow> c \<in> hexDigits"
proof
  assume "c \<in> hexDigits"
  then show "isHexChar c"
    by (auto simp: hexDigits_def isHexChar_def)
next
  assume h: "isHexChar c"
  then consider "48 \<le> (of_char c :: nat) \<and> (of_char c :: nat) < 58"
    | "97 \<le> (of_char c :: nat) \<and> (of_char c :: nat) < 103"
    | "65 \<le> (of_char c :: nat) \<and> (of_char c :: nat) < 71"
    by (auto simp: isHexChar_def Let_def)
  then show "c \<in> hexDigits"
  proof cases
    case 1
    then show ?thesis using char_in_range [of 48 c 58] digit_chars by blast
  next
    case 2
    then show ?thesis using char_in_range [of 97 c 103] lower_chars by blast
  next
    case 3
    then show ?thesis using char_in_range [of 65 c 71] upper_chars by blast
  qed
qed

lemma hexRegexExec_Some_iff:
  "hexRegexExec s \<noteq> None \<longleftrightarrow>
     (\<exists>ds. (s = ds \<or> s = CHR ''#'' # ds) \<and> length ds = 6 \<and> list_all isHexChar ds)"
proof
  assume "hexRegexExec s \<noteq> None"
  then show "\<exists>ds. (s = ds \<or> s = CHR ''#'' # ds) \<and> length ds = 6 \<and> list_all isHexChar ds"
    by (auto simp: hexRegexExec_def Let_def split: list.splits if_splits)
next
  assume "\<exists>ds. (s = ds \<or> s = CHR ''#'' # ds) \<and> length ds = 6 \<and> list_all isHexChar ds"
  then obtain ds where s: "s = ds \<or> s = CHR ''#'' # ds" and len: "length ds = 6"
    and hx: "list_all isHexChar ds" by blast
  from len obtain c1 c2 c3 c4 c5 c6 where ds: "ds = [c1, c2, c3, c4, c5, c6]"
    by (auto simp: length_Suc_conv numeral_eq_Suc)
  have "c1 \<noteq> CHR ''#''" using hx by (auto simp: ds isHexChar_def)
  then show "hexRegexExec s \<noteq> None"
    using s hx by (auto simp: ds hexRegexExec_def)
qed

lemma hexToRgb_None_iff: "hexToRgb s = None \<longleftrightarrow> \<not> isHexColorString s"
proof -
  have "isHexColorString s \<longleftrightarrow>
     (\<exists>ds. (s = ds \<or> s = CHR ''#'' # ds) \<and> length ds = 6 \<and> list_all isHexChar ds)"
    by (simp add: isHexColorString_def list_all_iff isHexChar_iff subset_eq)
  then have A: "isHexColorString s \<longleftrightarrow> hexRegexExec s \<noteq> None"
    using hexRegexExec_Some_iff [of s] by blast
  have B: "hexToRgb s = None \<longleftrightarrow> hexRegexExec s = None"
    by (auto simp: hexToRgb_def split: option.splits)
  show ?thesis by (simp only: A B not_not)
qed

text \<open>Claim C10: a colour with integer channels in \<open>[0, 255]\<close> is returned by
  \<open>hexToRgb\<close> from its \<open>rgbToHex\<close> string, and \<open>hexToRgb\<close> returns null exactly on
  the strings that are not six hexadecimal digits with an optional leading \<open>#\<close>.\<close>

theorem hex_roundtrip:
  fixes c :: ColorRGB
  shows "(0 \<le> r c \<and> r c \<le> 255 \<and> 0 \<le> g c \<and> g c \<le> 255 \<and> 0 \<le> b c \<and> b c \<le> 255
           \<longrightarrow> hexToRgb (rgbToHex c) = Some c)
         \<and> (hexToRgb s = None \<longleftrightarrow> \<not> isHexColorString s)"
  using hexToRgb_roundtrip [of c] hexToRgb_None_iff [of s] by blast

lemma rgbToHex_clay: "rgbToHex clay = ''#c89682''"
  by (simp add: rgbToHex_def toHex_def clay_def toString16.simps padStart0_def hexDigit_def)

lemma hexToRgb_bad: "hexToRgb ''#12345'' = None"
  by (simp add: hexToRgb_def hexRegexExec_def)

text \<open>Claim C10, at the colour (200, 150, 130) and at a string of five digits.\<close>

theorem hex_roundtrip_witness:
  "0 \<le> r clay \<and> r clay \<le> 255 \<and> 0 \<le> g clay \<and> g clay \<le> 255 \<and> 0 \<le> b clay \<and> b clay \<le> 255
   \<and> rgbToHex clay = ''#c89682'' \<and> hexToRgb ''#c89682'' = Some clay
   \<and> hexToRgb ''#12345'' = None \<and> \<not> isHexColorString ''#12345''"
  using hex_roundtrip [of clay "''#12345''"]
  unfolding rgbToHex_clay hexToRgb_bad by (simp add: clay_def)

section \<open>Properties of Song\<close>

lemma extractCalls_applyToElement [simp]:
  "extractCalls (applyToElement gen w e cs) = extractCalls w"
  by (simp add: applyToElement_def Let_def)

lemma extractCalls_applyIfGiven [simp]:
  "extractCalls (applyIfGiven gen w el cs) = extractCalls w"
  by (simp add: applyIfGiven_def split: option.splits)

lemma colors_buildWaveResult [simp]: "colors (buildWaveResult gen cs flw rg er) = cs"
  by (simp add: buildWaveResult_def Let_def)

lemma isFlowing_buildWaveResult [simp]: "isFlowing (buildWaveResult gen cs flw rg er) = flw"
  by (simp add: buildWaveResult_def Let_def)

lemma error_buildWaveResult [simp]: "error (buildWaveResult gen cs flw rg er) = er"
  by (simp add: buildWaveResult_def Let_def)

lemma createWaves_hit:
  "map_of (cache s) (cacheKeyOf src) = Some cached \<Longrightarrow>
   createWaves w s src el =
     (applyIfGiven (generator s) w el cached, s,
      Resolved (buildWaveResult (generator s) cached True None None))"
  by (simp add: createWaves_def)

lemma createWaves_rejected:
  "map_of (cache s) (cacheKeyOf src) = None \<Longrightarrow>
   extractColors w (extractor s) src 2 = (w1, Rejected t) \<Longrightarrow>
   createWaves w s src el =
     (applyIfGiven (generator s) w1 el (fallbackColors (getConfig (generator s))), s,
      Resolved (buildWaveResult (generator s) (fallbackColors (getConfig (generator s))) False None
                 (Some (errorMessage t))))"
  by (simp add: createWaves_def Let_def)

lemma createWaves_resolved:
  "map_of (cache s) (cacheKeyOf src) = None \<Longrightarrow>
   extractColors w (extractor s) src 2 = (w1, Resolved rgbs) \<Longrightarrow>
   createWaves w s src el =
     (applyIfGiven (generator s) w1 el (map rgbToHex rgbs),
      s\<lparr>cache := AList.update (cacheKeyOf src) (map rgbToHex rgbs) (cache s)\<rparr>,
      Resolved (buildWaveResult (generator s) (map rgbToHex rgbs) True (Some rgbs) None))"
  by (simp add: createWaves_def Let_def)

lemma extractColors_world:
  "fst (extractColors w ex src n) = w\<lparr>extractCalls := extractCalls w @ [src]\<rparr>"
  by (simp add: extractColors_def Let_def split: ImageSource.splits)

lemma extractColors_rejected_cases:
  assumes "snd (extractColors w ex src n) = Rejected t"
  shows "t = capabilityError \<or> (\<exists>u. src = Url u \<and> t = loadError u)
         \<or> t = ErrorObject ''Canvas not available''
         \<or> (\<exists>c rest. canvasStage w (options ex) src = Inl (c, rest) \<and> t = ErrorObject (c # rest))"
  using assms
  by (auto simp: extractColors_def processImage_def Let_def
      split: ImageSource.splits if_splits sum.splits)

lemma rejected_message_nonempty:
  assumes "snd (extractColors w ex src n) = Rejected t"
  shows "errorMessage t \<noteq> []"
  using extractColors_rejected_cases [OF assms]
  by (auto simp: errorMessage_def capabilityError_def loadError_def songName_def)

lemma styles_applyToElement_browser:
  "isBrowser w \<Longrightarrow>
   style_background (styles (applyToElement gen w e cs) e) = generateCSS gen cs"
  by (simp add: applyToElement_def addWaveEffects_def Let_def)

lemma applyToElement_not_browser: "\<not> isBrowser w \<Longrightarrow> applyToElement gen w e cs = w"
  by (simp add: applyToElement_def)

text \<open>Claim C3, amended: when the image is not cached and the extraction rejects,
  \<open>createWaves\<close> resolves, with \<open>isFlowing\<close> false, the configured fallback colours and a
  non-empty error string (the message of the thrown error).  A given element receives the
  fallback gradient when the environment is a browser; otherwise \<open>applyToElement\<close> returns
  early and no style changes.\<close>

theorem createWaves_fallback:
  assumes "map_of (cache s) (cacheKeyOf src) = None"
    and "snd (extractColors w (extractor s) src 2) = Rejected t"
  shows "\<exists>w' res.
     createWaves w s src el = (w', s, Resolved res)
     \<and> isFlowing res = False
     \<and> colors res = fallbackColors (getConfig (generator s))
     \<and> error res = Some (errorMessage t) \<and> errorMessage t \<noteq> []
     \<and> (\<forall>e. el = Some e \<longrightarrow>
           (if isBrowser w
            then style_background (styles w' e)
                   = generateCSS (generator s) (fallbackColors (getConfig (generator s)))
            else styles w' = styles w))"
proof -
  let ?w1 = "w\<lparr>extractCalls := extractCalls w @ [src]\<rparr>"
  let ?fb = "fallbackColors (getConfig (generator s))"
  have ex: "extractColors w (extractor s) src 2 = (?w1, Rejected t)"
    using assms(2) extractColors_world [of w "extractor s" src 2]
    by (cases "extractColors w (extractor s) src 2") simp
  have cw: "createWaves w s src el =
      (applyIfGiven (generator s) ?w1 el ?fb, s,
       Resolved (buildWaveResult (generator s) ?fb False None (Some (errorMessage t))))"
    by (rule createWaves_rejected [OF assms(1) ex])
  have msg: "errorMessage t \<noteq> []"
    by (rule rejected_message_nonempty [OF assms(2)])
  have el: "\<forall>e. el = Some e \<longrightarrow>
      (if isBrowser w
       then style_background (styles (applyIfGiven (generator s) ?w1 el ?fb) e)
              = generateCSS (generator s) ?fb
       else styles (applyIfGiven (generator s) ?w1 el ?fb) = styles w)"
    by (simp add: applyIfGiven_def styles_applyToElement_browser applyToElement_not_browser)
  show ?thesis
    unfolding cw using msg el by simp
qed

text \<open>Claim C9: when the identifier is in the cache, \<open>createWaves\<close> resolves with
  exactly the cached colours, leaves the Song (and so the cache) unchanged, and makes no
  call of \<open>extractColors\<close>.\<close>

theorem createWaves_cached:
  assumes "map_of (cache s) (cacheKeyOf src) = Some cached"
  shows "\<exists>w' res.
     createWaves w s src el = (w', s, Resolved res)
     \<and> colors res = cached \<and> isFlowing res
     \<and> extractCalls w' = extractCalls w"
  unfolding createWaves_hit [OF assms] by simp

lemma plainSong_browser:
  "plainSong browserWorld =
     \<lparr>extractor = \<lparr>options = \<lparr>canvasSize = 150, sampleRate = 32, precision = 25, maxColors = 8\<rparr>,
                    hasCanvas = True, hasCtx = True\<rparr>,
      generator = \<lparr>config = \<lparr>direction = ''to bottom right'',
                      transition = ''all 1.5s cubic-bezier(0.4, 0, 0.2, 1)'',
                      fallbackColors = [''#6B46C1'', ''#EC4899''], colorCount = 2,
                      flowSpeed = ''medium'', intensity = ''medium'', waveType = ''linear''\<rparr>\<rparr>,
      cache = []\<rparr>"
  by (simp add: plainSong_def newSong_def newColorExtractor_def newWaveGenerator_def
      browserWorld_def spreadExtractorOptions_def spreadWaveConfig_def spread_def truthy_def
      emptyExtractorOptions_def emptyWaveConfig_def defaultWaveConfig_def
      getTransitionTiming_def getFallbackColors_def Let_def)

lemma plainSong_node:
  "plainSong nodeWorld =
     \<lparr>extractor = \<lparr>options = \<lparr>canvasSize = 150, sampleRate = 32, precision = 25, maxColors = 8\<rparr>,
                    hasCanvas = False, hasCtx = False\<rparr>,
      generator = \<lparr>config = \<lparr>direction = ''to bottom right'',
                      transition = ''all 1.5s cubic-bezier(0.4, 0, 0.2, 1)'',
                      fallbackColors = [''#6B46C1'', ''#EC4899''], colorCount = 2,
                      flowSpeed = ''medium'', intensity = ''medium'', waveType = ''linear''\<rparr>\<rparr>,
      cache = []\<rparr>"
  by (simp add: plainSong_def newSong_def newColorExtractor_def newWaveGenerator_def
      nodeWorld_def spreadExtractorOptions_def spreadWaveConfig_def spread_def truthy_def
      emptyExtractorOptions_def emptyWaveConfig_def defaultWaveConfig_def
      getTransitionTiming_def getFallbackColors_def Let_def)

lemma filterColors_grey_sand: "filterColors [grey100, sand] 2 = [grey100, sand]"
  unfolding filterColors_def filterLoop_grey_sand by (simp add: padLoop.simps slice0_def)

lemma rgbToHex_sand: "rgbToHex sand = ''#c8967d''"
  by (simp add: rgbToHex_def toHex_def sand_def toString16.simps padStart0_def hexDigit_def)

lemma rgbToHex_grey: "rgbToHex grey100 = ''#646464''"
  by (simp add: rgbToHex_def toHex_def grey100_def toString16.simps padStart0_def hexDigit_def)

lemma extract_cover:
  "extractColors browserWorld (extractor (plainSong browserWorld)) (Url ''cover.png'') 2 =
     (browserWorld\<lparr>extractCalls := [Url ''cover.png'']\<rparr>, Resolved [grey100, sand])"
  unfolding plainSong_browser
  by (simp add: extractColors_def processImage_def browserWorld_def filterColors_grey_sand)

lemma extract_missing:
  "extractColors browserWorld (extractor (plainSong browserWorld)) (Url ''missing.png'') 2 =
     (browserWorld\<lparr>extractCalls := [Url ''missing.png'']\<rparr>, Rejected (loadError ''missing.png''))"
  unfolding plainSong_browser
  by (simp add: extractColors_def processImage_def browserWorld_def)

lemma extract_node:
  "extractColors nodeWorld (extractor (plainSong nodeWorld)) (Url ''cover.png'') 2 =
     (nodeWorld\<lparr>extractCalls := [Url ''cover.png'']\<rparr>, Rejected capabilityError)"
  unfolding plainSong_node
  by (simp add: extractColors_def nodeWorld_def)

lemma cache_plainSong: "cache (plainSong w) = []"
  by (simp add: plainSong_def newSong_def)

lemma fallback_gradient:
  "generateCSS (generator (plainSong browserWorld)) [''#6B46C1'', ''#EC4899'']
     = ''linear-gradient(to bottom right, #6B46C1, #EC4899)''"
  unfolding plainSong_browser
  by (simp add: generateCSS_def ensureMinimumColors_def generateWaveCSS_def slice0_def)

lemma fallback_gradient_node:
  "generateCSS (generator (plainSong nodeWorld)) (fallbackColors (getConfig (generator (plainSong nodeWorld))))
     = ''linear-gradient(to bottom right, #6B46C1, #EC4899)''"
  unfolding plainSong_node
  by (simp add: generateCSS_def ensureMinimumColors_def generateWaveCSS_def slice0_def getConfig_def)

text \<open>Claim C3, amended, in a browser, for an image that fails to load and element 0.\<close>

theorem createWaves_fallback_witness:
  "map_of (cache (plainSong browserWorld)) (cacheKeyOf (Url ''missing.png'')) = None
   \<and> snd (extractColors browserWorld (extractor (plainSong browserWorld)) (Url ''missing.png'') 2)
       = Rejected (loadError ''missing.png'')
   \<and> (\<exists>w' res.
        createWaves browserWorld (plainSong browserWorld) (Url ''missing.png'') (Some 0)
          = (w', plainSong browserWorld, Resolved res)
        \<and> isFlowing res = False
        \<and> colors res = [''#6B46C1'', ''#EC4899'']
        \<and> error res = Some ''Failed to load image: missing.png''
        \<and> style_background (styles w' 0) = ''linear-gradient(to bottom right, #6B46C1, #EC4899)'')"
proof -
  have miss: "map_of (cache (plainSong browserWorld)) (cacheKeyOf (Url ''missing.png'')) = None"
    by (simp add: cache_plainSong)
  have rej: "snd (extractColors browserWorld (extractor (plainSong browserWorld)) (Url ''missing.png'') 2)
       = Rejected (loadError ''missing.png'')"
    by (simp add: extract_missing)
  have fb: "fallbackColors (getConfig (generator (plainSong browserWorld))) = [''#6B46C1'', ''#EC4899'']"
    unfolding plainSong_browser by (simp add: getConfig_def)
  have br: "isBrowser browserWorld" by (simp add: browserWorld_def)
  have msg: "errorMessage (loadError ''missing.png'') = ''Failed to load image: missing.png''"
    by (simp add: errorMessage_def loadError_def)
  show ?thesis
    using createWaves_fallback [OF miss rej, of "Some 0"] miss rej
    unfolding fb fallback_gradient msg by (simp add: br)
qed

text \<open>Claim C3 as stated fails outside a browser: the extraction rejects with the
  capability error, an element is given, and its background stays unset instead of
  receiving the fallback gradient.\<close>

theorem createWaves_fallback_counterexample:
  "snd (extractColors nodeWorld (extractor (plainSong nodeWorld)) (Url ''cover.png'') 2)
     = Rejected capabilityError
   \<and> style_background
        (styles (fst (createWaves nodeWorld (plainSong nodeWorld) (Url ''cover.png'') (Some 0))) 0) = []
   \<and> generateCSS (generator (plainSong nodeWorld))
        (fallbackColors (getConfig (generator (plainSong nodeWorld))))
       = ''linear-gradient(to bottom right, #6B46C1, #EC4899)''"
proof -
  have miss: "map_of (cache (plainSong nodeWorld)) (cacheKeyOf (Url ''cover.png'')) = None"
    by (simp add: cache_plainSong)
  have "styles (fst (createWaves nodeWorld (plainSong nodeWorld) (Url ''cover.png'') (Some 0)))
          = styles nodeWorld"
    unfolding createWaves_rejected [OF miss extract_node]
    by (simp add: applyIfGiven_def applyToElement_def nodeWorld_def)
  then show ?thesis
    by (simp add: extract_node fallback_gradient_node) (simp add: nodeWorld_def noStyle_def)
qed

lemma first_call:
  "createWaves browserWorld (plainSong browserWorld) (Url ''cover.png'') None =
     (browserWorld\<lparr>extractCalls := [Url ''cover.png'']\<rparr>, coverSong,
      Resolved (buildWaveResult (generator (plainSong browserWorld)) [''#646464'', ''#c8967d''] True
                 (Some [grey100, sand]) None))"
proof -
  have miss: "map_of (cache (plainSong browserWorld)) (cacheKeyOf (Url ''cover.png'')) = None"
    by (simp add: cache_plainSong)
  show ?thesis
    unfolding createWaves_resolved [OF miss extract_cover]
    by (simp add: rgbToHex_grey rgbToHex_sand applyIfGiven_def coverSong_def cache_plainSong
        cacheKeyOf_def)
qed

text \<open>Claim C9, for a second call with \<open>cover.png\<close> after the first call
  (lemma \<open>first_call\<close>) cached it.\<close>

theorem createWaves_cached_witness:
  "map_of (cache coverSong) (cacheKeyOf (Url ''cover.png'')) = Some [''#646464'', ''#c8967d'']
   \<and> (\<exists>w' res.
        createWaves (browserWorld\<lparr>extractCalls := [Url ''cover.png'']\<rparr>) coverSong
            (Url ''cover.png'') (Some 0) = (w', coverSong, Resolved res)
        \<and> colors res = [''#646464'', ''#c8967d''] \<and> isFlowing res
        \<and> extractCalls w' = [Url ''cover.png''])"
proof -
  have hit: "map_of (cache coverSong) (cacheKeyOf (Url ''cover.png'')) = Some [''#646464'', ''#c8967d'']"
    by (simp add: coverSong_def cacheKeyOf_def)
  show ?thesis
    using createWaves_cached [OF hit, of "browserWorld\<lparr>extractCalls := [Url ''cover.png'']\<rparr>" "Some 0"] hit
    by simp
qed

lemma createWaves_song:
  "fst (snd (createWaves w s src el)) = s
   \<or> (map_of (cache s) (cacheKeyOf src) = None
       \<and> (\<exists>hex. fst (snd (createWaves w s src el))
                 = s\<lparr>cache := AList.update (cacheKeyOf src) hex (cache s)\<rparr>))"
proof (cases "map_of (cache s) (cacheKeyOf src)")
  case (Some cached)
  then show ?thesis by (simp add: createWaves_hit)
next
  case None
  obtain w1 p where ex: "extractColors w (extractor s) src 2 = (w1, p)"
    by (cases "extractColors w (extractor s) src 2")
  show ?thesis
  proof (cases p)
    case (Resolved rgbs)
    then show ?thesis using createWaves_resolved [OF None, of w w1 rgbs el] ex None by auto
  next
    case (Rejected t)
    then show ?thesis using createWaves_rejected [OF None, of w w1 t el] ex by simp
  qed
qed

lemma createWaves_entry:
  assumes "map_of (cache s) k = Some v"
  shows "map_of (cache (fst (snd (createWaves w s src el)))) k = Some v"
proof -
  consider "fst (snd (createWaves w s src el)) = s"
    | hex where "map_of (cache s) (cacheKeyOf src) = None"
        "fst (snd (createWaves w s src el)) = s\<lparr>cache := AList.update (cacheKeyOf src) hex (cache s)\<rparr>"
    using createWaves_song [of w s src el] by blast
  then show ?thesis
  proof cases
    case 1
    then show ?thesis using assms by simp
  next
    case 2
    then have "k \<noteq> cacheKeyOf src" using assms by auto
    then show ?thesis using assms 2(2) by (simp add: update_conv')
  qed
qed

lemma keys_update:
  "set (map fst (AList.update k v al)) = insert k (set (map fst al))"
  using AList.dom_update [of k v al] by simp

lemma createWaves_keys:
  "set (map fst (cache s)) \<subseteq> set (map fst (cache (fst (snd (createWaves w s src el)))))"
  using createWaves_song [of w s src el] by (auto simp: keys_update simp del: set_map)

lemma createWaves_distinct:
  "distinct (map fst (cache s)) \<Longrightarrow>
   distinct (map fst (cache (fst (snd (createWaves w s src el)))))"
  using createWaves_song [of w s src el] by (auto simp: distinct_update)

lemma flowToElements_song:
  "fst (snd (flowToElements w s src els)) = fst (snd (createWaves w s src None))"
  by (simp add: flowToElements_def split: prod.splits promise.splits)

lemma Song_generateWaveCSS_song:
  "fst (snd (Song_generateWaveCSS w s src pre)) = fst (snd (createWaves w s src None))"
  by (simp add: Song_generateWaveCSS_def split: prod.splits promise.splits)

lemma applyGlobalWaves_song:
  "fst (snd (applyGlobalWaves w s src pre)) = fst (snd (createWaves w s src None))"
  by (simp add: applyGlobalWaves_def split: prod.splits promise.splits)

lemma preloadColors_song:
  "fst (snd (preloadColors w s src)) = fst (snd (createWaves w s src None))"
  by (simp add: preloadColors_def split: prod.splits promise.splits)

lemma drop_promise:
  "snd (case x of (w1, s1, p) \<Rightarrow> (w1, s1)) = fst (snd x)"
  by (cases x) simp

lemma perform_song:
  "snd (perform op (w, s)) =
     (case op of
        CreateWaves src el \<Rightarrow> fst (snd (createWaves w s src el))
      | FlowToElements src els \<Rightarrow> fst (snd (createWaves w s src None))
      | GenerateWaveCSS src pre \<Rightarrow> fst (snd (createWaves w s src None))
      | ApplyGlobalWaves src pre \<Rightarrow> fst (snd (createWaves w s src None))
      | PreloadColors src \<Rightarrow> fst (snd (createWaves w s src None))
      | UpdateExtractorOptions opts \<Rightarrow> updateExtractorOptions s opts
      | UpdateWaveConfig cfg \<Rightarrow> updateWaveConfig s cfg
      | ClearCache \<Rightarrow> clearCache s
      | Destroy \<Rightarrow> destroy s
      | _ \<Rightarrow> s)"
  by (cases op)
    (simp_all add: drop_promise flowToElements_song Song_generateWaveCSS_song
      applyGlobalWaves_song preloadColors_song)

lemma perform_keeps_keys:
  assumes "\<not> clearsCache op" and "k \<in> set (cacheKeys st)"
  shows "k \<in> set (cacheKeys (perform op st))"
proof -
  obtain w s where st: "st = (w, s)" by (cases st)
  have k: "k \<in> set (map fst (cache s))" using assms(2) by (simp add: st cacheKeys_def)
  have cw: "k \<in> set (map fst (cache (fst (snd (createWaves w s src el)))))" for src el
    using k createWaves_keys [of s w src el] by blast
  show ?thesis
    unfolding st cacheKeys_def perform_song
    using assms(1) k cw
    by (cases op) (simp_all add: clearsCache_def updateWaveConfig_def del: set_map)
qed

lemma perform_keeps_entry:
  assumes "\<not> clearsCache op" and "map_of (cache (snd st)) k = Some v"
  shows "map_of (cache (snd (perform op st))) k = Some v"
proof -
  obtain w s where st: "st = (w, s)" by (cases st)
  have k: "map_of (cache s) k = Some v" using assms(2) by (simp add: st)
  have cw: "map_of (cache (fst (snd (createWaves w s src el)))) k = Some v" for src el
    using k by (rule createWaves_entry)
  show ?thesis
    unfolding st perform_song
    using assms(1) k cw
    by (cases op) (simp_all add: clearsCache_def updateWaveConfig_def)
qed

lemma perform_distinct:
  assumes "distinct (cacheKeys st)"
  shows "distinct (cacheKeys (perform op st))"
proof -
  obtain w s where st: "st = (w, s)" by (cases st)
  have d: "distinct (map fst (cache s))" using assms by (simp add: st cacheKeys_def)
  have cw: "distinct (map fst (cache (fst (snd (createWaves w s src el)))))" for src el
    using d by (rule createWaves_distinct)
  show ?thesis
    unfolding st cacheKeys_def perform_song
    using d cw
    by (cases op)
      (simp_all add: updateWaveConfig_def updateExtractorOptions_def clearCache_def destroy_def)
qed

lemma runOps_snoc:
  "runOps w eo wc (ops @ [op]) = perform op (runOps w eo wc ops)"
  by (simp add: runOps_def)

lemma runOps_distinct: "distinct (cacheKeys (runOps w eo wc ops))"
proof (induction ops rule: rev_induct)
  case Nil
  then show ?case by (simp add: runOps_def cacheKeys_def newSong_def)
next
  case (snoc op ops)
  then show ?case by (simp add: runOps_snoc perform_distinct)
qed

text \<open>Claim C4, amended: after any sequence of operations on a new Song, an operation
  other than \<open>clearCache\<close>, \<open>destroy\<close> and \<open>updateExtractorOptions\<close> keeps every entry
  of the cache, the identifier with the colours stored for it, and the cache never holds
  two entries for one identifier.\<close>

theorem cache_entries_persist:
  assumes "\<not> clearsCache op"
    and "map_of (cache (snd (runOps w eo wc ops))) k = Some v"
  shows "map_of (cache (snd (runOps w eo wc (ops @ [op])))) k = Some v
    \<and> k \<in> set (cacheKeys (runOps w eo wc (ops @ [op])))
    \<and> distinct (cacheKeys (runOps w eo wc ops))
    \<and> distinct (cacheKeys (runOps w eo wc (ops @ [op])))"
proof -
  have kept: "map_of (cache (snd (runOps w eo wc (ops @ [op])))) k = Some v"
    unfolding runOps_snoc by (rule perform_keeps_entry [OF assms])
  then have "(k, v) \<in> set (cache (snd (runOps w eo wc (ops @ [op]))))"
    by (rule map_of_SomeD)
  then have "k \<in> set (cacheKeys (runOps w eo wc (ops @ [op])))"
    by (force simp: cacheKeys_def)
  then show ?thesis
    using kept runOps_distinct [of w eo wc ops] runOps_distinct [of w eo wc "ops @ [op]"]
    by simp
qed

lemma run_cover:
  "runOps browserWorld emptyExtractorOptions emptyWaveConfig [CreateWaves (Url ''cover.png'') None]
     = (browserWorld\<lparr>extractCalls := [Url ''cover.png'']\<rparr>, coverSong)"
  using first_call by (simp add: runOps_def plainSong_def)

text \<open>Claim C4 as stated fails: \<open>updateExtractorOptions\<close> is neither
  \<open>clearCache\<close> nor \<open>destroy\<close>, and it empties the cache.\<close>

theorem cache_entries_persist_counterexample:
  "''cover.png'' \<in> set (cacheKeys (runOps browserWorld emptyExtractorOptions emptyWaveConfig
        [CreateWaves (Url ''cover.png'') None]))
   \<and> cacheKeys (runOps browserWorld emptyExtractorOptions emptyWaveConfig
        ([CreateWaves (Url ''cover.png'') None] @ [UpdateExtractorOptions emptyExtractorOptions])) = []"
  unfolding runOps_snoc run_cover
  by (simp add: cacheKeys_def coverSong_def updateExtractorOptions_def clearCache_def)

text \<open>Claim C4, amended, for a failing \<open>createWaves\<close> after a successful one.\<close>

theorem cache_entries_persist_witness:
  "\<not> clearsCache (CreateWaves (Url ''missing.png'') (Some 0))
   \<and> map_of (cache (snd (runOps browserWorld emptyExtractorOptions emptyWaveConfig
        [CreateWaves (Url ''cover.png'') None]))) ''cover.png'' = Some [''#646464'', ''#c8967d'']
   \<and> map_of (cache (snd (runOps browserWorld emptyExtractorOptions emptyWaveConfig
        ([CreateWaves (Url ''cover.png'') None] @ [CreateWaves (Url ''missing.png'') (Some 0)]))))
        ''cover.png'' = Some [''#646464'', ''#c8967d'']
   \<and> distinct (cacheKeys (runOps browserWorld emptyExtractorOptions emptyWaveConfig
        ([CreateWaves (Url ''cover.png'') None] @ [CreateWaves (Url ''missing.png'') (Some 0)])))"
proof -
  have a: "\<not> clearsCache (CreateWaves (Url ''missing.png'') (Some 0))"
    by (simp add: clearsCache_def)
  have b: "map_of (cache (snd (runOps browserWorld emptyExtractorOptions emptyWaveConfig
        [CreateWaves (Url ''cover.png'') None]))) ''cover.png'' = Some [''#646464'', ''#c8967d'']"
    unfolding run_cover by (simp add: coverSong_def)
  show ?thesis
    using cache_entries_persist [OF a b] a b by blast
qed

end
